theory Spec2Isabelle
  imports Complex_Main
begin

section \<open>Python strings\<close>

text \<open>
  A Python \<open>str\<close> is a sequence of Unicode code points and \<open>len\<close> counts code points,
  so a string is modelled as the list of its code points. \<open>str ''abc''\<close> writes an
  ASCII literal of the source.
\<close>

type_synonym ustr = "nat list"

definition str :: "string \<Rightarrow> ustr" where
  "str s = map of_char s"

text \<open>An ASCII text between double quotes, as string literals stand in JSON texts.\<close>

definition quoted :: "string \<Rightarrow> ustr" where
  "quoted s = [0x22] @ str s @ [0x22]"

text \<open>
  \<open>str.isspace\<close> and the line boundaries of \<open>str.splitlines\<close>, as the Python
  library documents them: \<open>strip\<close> removes the first set from both ends, \<open>splitlines\<close>
  cuts at the second, taking \<open>\r\n\<close> as one boundary.
\<close>

definition is_space :: "nat \<Rightarrow> bool" where
  "is_space c \<longleftrightarrow>
     (0x09 \<le> c \<and> c \<le> 0x0D) \<or> (0x1C \<le> c \<and> c \<le> 0x20) \<or> c = 0x85 \<or> c = 0xA0
     \<or> c = 0x1680 \<or> (0x2000 \<le> c \<and> c \<le> 0x200A) \<or> c = 0x2028 \<or> c = 0x2029
     \<or> c = 0x202F \<or> c = 0x205F \<or> c = 0x3000"

definition is_linebreak :: "nat \<Rightarrow> bool" where
  "is_linebreak c \<longleftrightarrow>
     (0x0A \<le> c \<and> c \<le> 0x0D) \<or> (0x1C \<le> c \<and> c \<le> 0x1E) \<or> c = 0x85
     \<or> c = 0x2028 \<or> c = 0x2029"

definition lstrip :: "ustr \<Rightarrow> ustr" where
  "lstrip s = dropWhile is_space s"

definition rstrip :: "ustr \<Rightarrow> ustr" where
  "rstrip s = rev (dropWhile is_space (rev s))"

definition strip :: "ustr \<Rightarrow> ustr" where
  "strip s = rstrip (lstrip s)"

definition startswith :: "ustr \<Rightarrow> ustr \<Rightarrow> bool" where
  "startswith s p \<longleftrightarrow> take (length p) s = p"

definition endswith :: "ustr \<Rightarrow> ustr \<Rightarrow> bool" where
  "endswith s p \<longleftrightarrow> length p \<le> length s \<and> drop (length s - length p) s = p"

fun splitlines_from :: "ustr \<Rightarrow> ustr \<Rightarrow> ustr list" where
  "splitlines_from line [] = (if line = [] then [] else [line])"
| "splitlines_from line [c] = (if is_linebreak c then [line] else [line @ [c]])"
| "splitlines_from line (c # d # cs) =
     (if c = 0x0D \<and> d = 0x0A then line # splitlines_from [] cs
      else if is_linebreak c then line # splitlines_from [] (d # cs)
      else splitlines_from (line @ [c]) (d # cs))"

definition splitlines :: "ustr \<Rightarrow> ustr list" where
  "splitlines s = splitlines_from [] s"

fun join :: "ustr \<Rightarrow> ustr list \<Rightarrow> ustr" where
  "join sep [] = []"
| "join sep [x] = x"
| "join sep (x # y # ys) = x @ sep @ join sep (y # ys)"

section \<open>Exceptions and values\<close>

text \<open>
  The exceptions the program can meet. \<open>LibraryError\<close> stands for whatever an external
  library raises (the completion client, the PDF and DOCX readers, the UTF-8 decoder),
  with its message.
\<close>

datatype exn = AttributeError | TypeError | IndexError | KeyError | JSONDecodeError
  | LibraryError ustr

text \<open>
  The values \<open>json.loads\<close> produces: \<open>None\<close>, \<open>bool\<close>, \<open>int\<close>, \<open>float\<close>, \<open>str\<close>,
  \<open>list\<close> and \<open>dict\<close>. A dictionary keeps its entries in insertion order. A finite
  float is held as the exact value of its literal; the rounding to a double is not
  modelled.
\<close>

datatype pyfloat = Finite rat | PosInf | NegInf | NaN

datatype pyval = PyNone | PyBool bool | PyInt int | PyFloat pyfloat | PyStr ustr
  | PyList "pyval list" | PyDict "(pyval \<times> pyval) list"

text \<open>
  Dictionary keys: lists and dictionaries are unhashable; \<open>True\<close>, \<open>1\<close> and \<open>1.0\<close> are
  the same key.
\<close>

datatype key = NoneKey | NumKey pyfloat | StrKey ustr

fun py_key :: "pyval \<Rightarrow> key option" where
  "py_key PyNone = Some NoneKey"
| "py_key (PyBool b) = Some (NumKey (Finite (if b then 1 else 0)))"
| "py_key (PyInt i) = Some (NumKey (Finite (of_int i)))"
| "py_key (PyFloat f) = Some (NumKey f)"
| "py_key (PyStr s) = Some (StrKey s)"
| "py_key (PyList xs) = None"
| "py_key (PyDict d) = None"

text \<open>\<open>d[k] = v\<close> on a hashable key: an existing entry keeps its place and its key object.\<close>

fun dict_store :: "(pyval \<times> pyval) list \<Rightarrow> pyval \<Rightarrow> pyval \<Rightarrow> (pyval \<times> pyval) list" where
  "dict_store [] k v = [(k, v)]"
| "dict_store ((k', v') # d) k v =
     (if py_key k' = py_key k then (k', v) # d else (k', v') # dict_store d k v)"

definition dict_setitem ::
  "(pyval \<times> pyval) list \<Rightarrow> pyval \<Rightarrow> pyval \<Rightarrow> exn + (pyval \<times> pyval) list" where
  "dict_setitem d k v = (if py_key k = None then Inl TypeError else Inr (dict_store d k v))"

fun dict_lookup :: "(pyval \<times> pyval) list \<Rightarrow> pyval \<Rightarrow> pyval option" where
  "dict_lookup [] k = None"
| "dict_lookup ((k', v') # d) k = (if py_key k' = py_key k then Some v' else dict_lookup d k)"

text \<open>\<open>obj.get(k, dflt)\<close>: only a dictionary has the method.\<close>

definition py_get :: "pyval \<Rightarrow> pyval \<Rightarrow> pyval \<Rightarrow> exn + pyval" where
  "py_get obj k dflt =
     (case obj of
        PyDict d \<Rightarrow> Inr (case dict_lookup d k of None \<Rightarrow> dflt | Some v \<Rightarrow> v)
      | _ \<Rightarrow> Inl AttributeError)"

text \<open>Iteration: a list gives its elements, a dictionary its keys, a string its characters.\<close>

definition py_iter :: "pyval \<Rightarrow> exn + pyval list" where
  "py_iter v =
     (case v of
        PyList xs \<Rightarrow> Inr xs
      | PyDict d \<Rightarrow> Inr (map fst d)
      | PyStr s \<Rightarrow> Inr (map (\<lambda>c. PyStr [c]) s)
      | _ \<Rightarrow> Inl TypeError)"

fun strings_of :: "pyval list \<Rightarrow> exn + ustr list" where
  "strings_of [] = Inr []"
| "strings_of (x # xs) =
     (case x of
        PyStr s \<Rightarrow> (case strings_of xs of Inl e \<Rightarrow> Inl e | Inr ss \<Rightarrow> Inr (s # ss))
      | _ \<Rightarrow> Inl TypeError)"

text \<open>\<open>sep.join(v)\<close>: \<open>v\<close> must be iterable and every item a string.\<close>

definition py_join :: "ustr \<Rightarrow> pyval \<Rightarrow> exn + ustr" where
  "py_join sep v =
     (case py_iter v of
        Inl e \<Rightarrow> Inl e
      | Inr xs \<Rightarrow> (case strings_of xs of Inl e \<Rightarrow> Inl e | Inr ss \<Rightarrow> Inr (join sep ss)))"

section \<open>The JSON decoder\<close>

text \<open>
  \<open>json.loads\<close> of the Python library, with its default (strict) settings: blanks are
  space, tab, line feed and carriage return; a string literal may hold any character
  from U+0020 on except the quote and the backslash, and the escapes of RFC 8259 with
  surrogate pairs joined; numbers without fraction and exponent are integers; \<open>NaN\<close>,
  \<open>Infinity\<close> and \<open>-Infinity\<close> are accepted; the last of several equal keys wins. Every
  failure is a \<open>JSONDecodeError\<close>. The text is cut into tokens, which a pushdown
  automaton then reads. The limits of an interpreter (the recursion depth, the number
  of digits of an integer) are left out.
\<close>

datatype token = LBrace | RBrace | LBracket | RBracket | Colon | Comma | Atom pyval

definition is_digit :: "nat \<Rightarrow> bool" where
  "is_digit c \<longleftrightarrow> 48 \<le> c \<and> c \<le> 57"

definition hex_digit :: "nat \<Rightarrow> nat option" where
  "hex_digit c =
     (if 48 \<le> c \<and> c \<le> 57 then Some (c - 48)
      else if 97 \<le> c \<and> c \<le> 102 then Some (c - 87)
      else if 65 \<le> c \<and> c \<le> 70 then Some (c - 55)
      else None)"

fun hex_number :: "nat \<Rightarrow> ustr \<Rightarrow> nat option" where
  "hex_number v [] = Some v"
| "hex_number v (c # cs) =
     (case hex_digit c of None \<Rightarrow> None | Some d \<Rightarrow> hex_number (v * 16 + d) cs)"

definition hex4 :: "ustr \<Rightarrow> (nat \<times> ustr) option" where
  "hex4 s =
     (if length s < 4 then None
      else case hex_number 0 (take 4 s) of None \<Rightarrow> None | Some v \<Rightarrow> Some (v, drop 4 s))"

definition low_surrogate :: "ustr \<Rightarrow> (nat \<times> ustr) option" where
  "low_surrogate s =
     (if take 2 s = [92, 117] then
        (case hex4 (drop 2 s) of
           None \<Rightarrow> None
         | Some (uni2, rest) \<Rightarrow>
             if 0xDC00 \<le> uni2 \<and> uni2 \<le> 0xDFFF then Some (uni2, rest) else None)
      else None)"

definition unicode_escape :: "ustr \<Rightarrow> (nat \<times> ustr) option" where
  "unicode_escape s =
     (case hex4 s of
        None \<Rightarrow> None
      | Some (uni, rest) \<Rightarrow>
          if 0xD800 \<le> uni \<and> uni \<le> 0xDBFF then
            (case low_surrogate rest of
               None \<Rightarrow> Some (uni, rest)
             | Some (uni2, rest') \<Rightarrow>
                 Some (0x10000 + (uni - 0xD800) * 1024 + (uni2 - 0xDC00), rest'))
          else Some (uni, rest))"

definition escape :: "ustr \<Rightarrow> (nat \<times> ustr) option" where
  "escape s =
     (case s of
        [] \<Rightarrow> None
      | e # rest \<Rightarrow>
          if e = 34 \<or> e = 92 \<or> e = 47 then Some (e, rest)
          else if e = 98 then Some (8, rest)
          else if e = 102 then Some (12, rest)
          else if e = 110 then Some (10, rest)
          else if e = 114 then Some (13, rest)
          else if e = 116 then Some (9, rest)
          else if e = 117 then unicode_escape rest
          else None)"

lemma hex4_shorter: "hex4 s = Some (v, rest) \<Longrightarrow> length rest \<le> length s"
  by (auto simp: hex4_def split: if_splits option.splits)

lemma low_surrogate_shorter: "low_surrogate s = Some (v, rest) \<Longrightarrow> length rest \<le> length s"
  unfolding low_surrogate_def
  by (auto split: if_splits option.splits prod.splits dest!: hex4_shorter)

lemma unicode_escape_shorter:
  "unicode_escape s = Some (v, rest) \<Longrightarrow> length rest \<le> length s"
  unfolding unicode_escape_def
  by (auto split: option.splits if_splits prod.splits
      dest!: hex4_shorter low_surrogate_shorter)

lemma escape_shorter: "escape s = Some (v, rest) \<Longrightarrow> length rest \<le> length s"
  unfolding escape_def
  by (cases s) (auto split: if_splits dest!: unicode_escape_shorter)

function scanstring :: "ustr \<Rightarrow> ustr \<Rightarrow> exn + (ustr \<times> ustr)" where
  "scanstring acc [] = Inl JSONDecodeError"
| "scanstring acc (c # cs) =
     (if c = 34 then Inr (acc, cs)
      else if c = 92 then
        (case escape cs of
           None \<Rightarrow> Inl JSONDecodeError
         | Some (u, rest) \<Rightarrow> scanstring (acc @ [u]) rest)
      else if c < 32 then Inl JSONDecodeError
      else scanstring (acc @ [c]) cs)"
  by pat_completeness auto
termination
  by (relation "measure (\<lambda>(acc, s). length s)") (auto dest: escape_shorter)

lemma scanstring_shorter: "scanstring acc s = Inr (v, rest) \<Longrightarrow> length rest < length s"
proof (induction acc s rule: scanstring.induct)
  case (1 acc)
  then show ?case by simp
next
  case (2 acc c cs)
  show ?case
  proof (cases "c = 34")
    case True
    with "2.prems" show ?thesis by simp
  next
    case False
    show ?thesis
    proof (cases "c = 92")
      case True
      with False "2.prems" obtain u r where e: "escape cs = Some (u, r)"
        and s: "scanstring (acc @ [u]) r = Inr (v, rest)"
        by (auto split: option.splits)
      from "2.IH"(1) [OF False True e refl s] have "length rest < length r" .
      with escape_shorter [OF e] show ?thesis by simp
    next
      case c: False
      with False "2.prems" have lt: "\<not> c < 32" and s: "scanstring (acc @ [c]) cs = Inr (v, rest)"
        by (auto split: if_splits)
      from "2.IH"(2) [OF False c lt s] show ?thesis by simp
    qed
  qed
qed

definition digits_value :: "ustr \<Rightarrow> nat" where
  "digits_value ds = foldl (\<lambda>v c. v * 10 + (c - 48)) 0 ds"

definition match_integer :: "ustr \<Rightarrow> (ustr \<times> ustr) option" where
  "match_integer s =
     (case s of
        [] \<Rightarrow> None
      | c # cs \<Rightarrow>
          if c = 48 then Some ([c], cs)
          else if is_digit c then Some (c # takeWhile is_digit cs, dropWhile is_digit cs)
          else None)"

definition match_frac :: "ustr \<Rightarrow> ustr \<times> ustr" where
  "match_frac s =
     (case s of
        [] \<Rightarrow> ([], s)
      | c # cs \<Rightarrow>
          if c = 46 \<and> takeWhile is_digit cs \<noteq> []
          then (takeWhile is_digit cs, dropWhile is_digit cs)
          else ([], s))"

definition match_sign :: "ustr \<Rightarrow> bool \<times> ustr" where
  "match_sign s =
     (case s of
        [] \<Rightarrow> (False, s)
      | c # cs \<Rightarrow> if c = 45 then (True, cs) else if c = 43 then (False, cs) else (False, s))"

definition match_exp :: "ustr \<Rightarrow> int option \<times> ustr" where
  "match_exp s =
     (case s of
        [] \<Rightarrow> (None, s)
      | c # cs \<Rightarrow>
          if c = 101 \<or> c = 69 then
            (let (neg, ds) = match_sign cs in
             if takeWhile is_digit ds = [] then (None, s)
             else (Some ((if neg then - 1 else 1) * int (digits_value (takeWhile is_digit ds))),
                   dropWhile is_digit ds))
          else (None, s))"

definition match_number :: "ustr \<Rightarrow> (pyval \<times> ustr) option" where
  "match_number s =
     (let (neg, s1) = (case s of [] \<Rightarrow> (False, s) | c # cs \<Rightarrow> if c = 45 then (True, cs) else (False, s))
      in case match_integer s1 of
           None \<Rightarrow> None
         | Some (ds, s2) \<Rightarrow>
             (let (fs, s3) = match_frac s2; (ex, s4) = match_exp s3;
                  sign = (if neg then - 1 else 1)
              in if fs = [] \<and> ex = None
                 then Some (PyInt (sign * int (digits_value ds)), s4)
                 else Some (PyFloat (Finite (of_int (sign * int (digits_value (ds @ fs)))
                              * power_int 10 ((case ex of None \<Rightarrow> 0 | Some e \<Rightarrow> e) - int (length fs)))),
                            s4)))"

definition constants :: "(ustr \<times> pyval) list" where
  "constants =
     [(str ''null'', PyNone), (str ''true'', PyBool True), (str ''false'', PyBool False),
      (str ''NaN'', PyFloat NaN), (str ''Infinity'', PyFloat PosInf),
      (str ''-Infinity'', PyFloat NegInf)]"

fun match_constant :: "(ustr \<times> pyval) list \<Rightarrow> ustr \<Rightarrow> (pyval \<times> ustr) option" where
  "match_constant [] s = None"
| "match_constant ((word, v) # rest) s =
     (if word \<noteq> [] \<and> startswith s word then Some (v, drop (length word) s)
      else match_constant rest s)"

definition match_atom :: "ustr \<Rightarrow> (pyval \<times> ustr) option" where
  "match_atom s =
     (case match_number s of
        Some r \<Rightarrow> Some r
      | None \<Rightarrow> match_constant constants s)"

definition punctuation :: "nat \<Rightarrow> token option" where
  "punctuation c =
     (if c = 123 then Some LBrace else if c = 125 then Some RBrace
      else if c = 91 then Some LBracket else if c = 93 then Some RBracket
      else if c = 58 then Some Colon else if c = 44 then Some Comma else None)"

definition json_space :: "nat \<Rightarrow> bool" where
  "json_space c \<longleftrightarrow> c = 32 \<or> c = 9 \<or> c = 10 \<or> c = 13"

lemma match_integer_shorter: "match_integer s = Some (ds, rest) \<Longrightarrow> length rest < length s"
  unfolding match_integer_def
  by (cases s) (auto split: if_splits intro: le_imp_less_Suc length_dropWhile_le)

lemma match_frac_shorter: "match_frac s = (fs, rest) \<Longrightarrow> length rest \<le> length s"
  unfolding match_frac_def
  by (cases s) (auto split: if_splits intro: le_SucI length_dropWhile_le)

lemma match_sign_shorter: "match_sign s = (b, rest) \<Longrightarrow> length rest \<le> length s"
  unfolding match_sign_def by (cases s) (auto split: if_splits)

lemma match_exp_shorter: "match_exp s = (ex, rest) \<Longrightarrow> length rest \<le> length s"
proof (cases s)
  case Nil
  then show "match_exp s = (ex, rest) \<Longrightarrow> ?thesis" by (simp add: match_exp_def)
next
  case (Cons c cs)
  assume m: "match_exp s = (ex, rest)"
  obtain neg ds where sg: "match_sign cs = (neg, ds)" by (cases "match_sign cs")
  have "length (dropWhile is_digit ds) \<le> length ds" by (rule length_dropWhile_le)
  with match_sign_shorter [OF sg] have "length (dropWhile is_digit ds) \<le> length s"
    using Cons by simp
  with m Cons sg show ?thesis
    by (auto simp: match_exp_def split: if_splits)
qed

lemma match_number_shorter: "match_number s = Some (v, rest) \<Longrightarrow> length rest < length s"
proof -
  assume m: "match_number s = Some (v, rest)"
  obtain neg s1 where n: "(case s of [] \<Rightarrow> (False, s) | c # cs \<Rightarrow> if c = 45 then (True, cs) else (False, s)) = (neg, s1)"
    by (cases "(case s of [] \<Rightarrow> (False, s) | c # cs \<Rightarrow> if c = 45 then (True, cs) else (False, s))")
  then have l1: "length s1 \<le> length s" by (cases s) (auto split: if_splits)
  from m n obtain ds s2 where i: "match_integer s1 = Some (ds, s2)"
    by (auto simp: match_number_def Let_def split: option.splits)
  obtain fs s3 where f: "match_frac s2 = (fs, s3)" by (cases "match_frac s2")
  obtain ex s4 where e: "match_exp s3 = (ex, s4)" by (cases "match_exp s3")
  from m n i f e have "rest = s4"
    by (auto simp: match_number_def Let_def split: if_splits)
  with match_integer_shorter [OF i] match_frac_shorter [OF f] match_exp_shorter [OF e] l1
  show ?thesis by simp
qed

lemma match_constant_shorter: "match_constant ws s = Some (v, rest) \<Longrightarrow> length rest < length s"
proof (induction ws s rule: match_constant.induct)
  case (1 s)
  then show ?case by simp
next
  case (2 word v' rest' s)
  show ?case
  proof (cases "word \<noteq> [] \<and> startswith s word")
    case True
    then have "s \<noteq> []" by (auto simp: startswith_def)
    with True "2.prems" show ?thesis by auto
  next
    case False
    with 2 show ?thesis by auto
  qed
qed

lemma match_atom_shorter: "match_atom s = Some (v, rest) \<Longrightarrow> length rest < length s"
  unfolding match_atom_def
  by (auto split: option.splits dest: match_number_shorter match_constant_shorter)

function tokenize :: "ustr \<Rightarrow> exn + token list" where
  "tokenize [] = Inr []"
| "tokenize (c # cs) =
     (if json_space c then tokenize cs
      else if c = 34 then
        (case scanstring [] cs of
           Inl e \<Rightarrow> Inl e
         | Inr (s, rest) \<Rightarrow>
             (case tokenize rest of Inl e \<Rightarrow> Inl e | Inr ts \<Rightarrow> Inr (Atom (PyStr s) # ts)))
      else
        (case punctuation c of
           Some t \<Rightarrow> (case tokenize cs of Inl e \<Rightarrow> Inl e | Inr ts \<Rightarrow> Inr (t # ts))
         | None \<Rightarrow>
             (case match_atom (c # cs) of
                None \<Rightarrow> Inl JSONDecodeError
              | Some (v, rest) \<Rightarrow>
                  (case tokenize rest of Inl e \<Rightarrow> Inl e | Inr ts \<Rightarrow> Inr (Atom v # ts)))))"
  by pat_completeness auto
termination
proof (relation "measure length")
  show "wf (measure length)" by simp
next
  fix c cs x2 x y
  assume "scanstring [] cs = Inr x2" "(x, y) = x2"
  then have "length y < length cs" by (auto dest: scanstring_shorter)
  then show "(y, c # cs) \<in> measure length" by simp
next
  fix c cs x2 x y
  assume "match_atom (c # cs) = Some x2" "(x, y) = x2"
  then show "(y, c # cs) \<in> measure length" by (auto dest: match_atom_shorter)
qed simp_all

datatype frame = InList "pyval list" | InDict "(pyval \<times> pyval) list"
  | InEntry "(pyval \<times> pyval) list" ustr

datatype expect = Value | ListStart | DictStart | DictKey | DictColon ustr | Done pyval

definition begin_value :: "frame list \<Rightarrow> token \<Rightarrow> (frame list \<times> expect) option" where
  "begin_value stack t =
     (case t of
        Atom v \<Rightarrow> Some (stack, Done v)
      | LBracket \<Rightarrow> Some (InList [] # stack, ListStart)
      | LBrace \<Rightarrow> Some (InDict [] # stack, DictStart)
      | _ \<Rightarrow> None)"

definition begin_key :: "(pyval \<times> pyval) list \<Rightarrow> frame list \<Rightarrow> token \<Rightarrow> (frame list \<times> expect) option" where
  "begin_key pairs stack t =
     (case t of
        Atom v \<Rightarrow> (case v of PyStr k \<Rightarrow> Some (InDict pairs # stack, DictColon k) | _ \<Rightarrow> None)
      | _ \<Rightarrow> None)"

fun step :: "frame list \<Rightarrow> expect \<Rightarrow> token \<Rightarrow> (frame list \<times> expect) option" where
  "step stack Value t = begin_value stack t"
| "step (InList xs # stack) ListStart t =
     (if t = RBracket then Some (stack, Done (PyList xs)) else begin_value (InList xs # stack) t)"
| "step (InDict pairs # stack) DictStart t =
     (if t = RBrace then Some (stack, Done (PyDict pairs)) else begin_key pairs stack t)"
| "step (InDict pairs # stack) DictKey t = begin_key pairs stack t"
| "step (InDict pairs # stack) (DictColon k) t =
     (if t = Colon then Some (InEntry pairs k # stack, Value) else None)"
| "step (InList xs # stack) (Done v) t =
     (if t = Comma then Some (InList (xs @ [v]) # stack, Value)
      else if t = RBracket then Some (stack, Done (PyList (xs @ [v])))
      else None)"
| "step (InEntry pairs k # stack) (Done v) t =
     (if t = Comma then Some (InDict (dict_store pairs (PyStr k) v) # stack, DictKey)
      else if t = RBrace then Some (stack, Done (PyDict (dict_store pairs (PyStr k) v)))
      else None)"
| "step _ _ _ = None"

fun finish :: "frame list \<Rightarrow> expect \<Rightarrow> exn + pyval" where
  "finish [] (Done v) = Inr v"
| "finish _ _ = Inl JSONDecodeError"

fun parse :: "frame list \<Rightarrow> expect \<Rightarrow> token list \<Rightarrow> exn + pyval" where
  "parse stack e [] = finish stack e"
| "parse stack e (t # ts) =
     (case step stack e t of
        None \<Rightarrow> Inl JSONDecodeError
      | Some (stack', e') \<Rightarrow> parse stack' e' ts)"

definition json_loads :: "ustr \<Rightarrow> exn + pyval" where
  "json_loads s = (case tokenize s of Inl e \<Rightarrow> Inl e | Inr ts \<Rightarrow> parse [] Value ts)"

section \<open>What the user is shown\<close>

text \<open>
  The messages of \<open>st.error\<close>, \<open>st.write\<close> and \<open>st.success\<close>, named by their place in
  the source: line 46 (\<open>ExtractFailed\<close>), 119 (\<open>EmptyResponse\<close>, the text
  \<open>API:s svar var tomt.\<close>), 125 (\<open>JsonParseFailed\<close>), 126 (\<open>RawOutput\<close>),
  131 (\<open>ObjectivesFailed\<close>), 215 (\<open>McqFailed\<close>), 232 (\<open>Uploaded\<close>) and
  234 (\<open>NoTextExtracted\<close>).
\<close>

datatype message = ExtractFailed exn | EmptyResponse | JsonParseFailed exn | RawOutput ustr
  | ObjectivesFailed exn | McqFailed exn | Uploaded ustr | NoTextExtracted

datatype ui_event = StError message | StWrite message | StSuccess message

section \<open>Text extraction (fk.py, lines 29-47)\<close>

text \<open>
  An uploaded file is its name together with what the libraries make of its content:
  the UTF-8 decoding of its bytes; the pages \<open>pdfplumber\<close> finds, each with the outcome
  of \<open>extract_text()\<close> (a text, \<open>None\<close>, or an exception); the paragraphs \<open>docx\<close>
  finds, each with the outcome of reading its text. The outer \<open>Inl\<close> is an exception
  raised before the first page or paragraph is reached.
\<close>

record uploaded_file =
  name :: ustr
  decoded :: "exn + ustr"
  pdf_pages :: "exn + (exn + ustr option) list"
  docx_paragraphs :: "exn + (exn + ustr) list"

text \<open>
  The loops of the \<open>try\<close> block return the value of \<open>text\<close> when they stop and the
  exception that stopped them, if any.
\<close>

fun pdf_loop :: "ustr \<Rightarrow> (exn + ustr option) list \<Rightarrow> ustr \<times> exn option" where
  "pdf_loop text [] = (text, None)"
| "pdf_loop text (page # pages) =
     (case page of
        Inl e \<Rightarrow> (text, Some e)
      | Inr page_text \<Rightarrow>
          (case page_text of
             None \<Rightarrow> pdf_loop text pages
           | Some t \<Rightarrow> if t \<noteq> [] then pdf_loop (text @ t @ [0x0A]) pages
                       else pdf_loop text pages))"

fun docx_loop :: "ustr \<Rightarrow> (exn + ustr) list \<Rightarrow> ustr \<times> exn option" where
  "docx_loop text [] = (text, None)"
| "docx_loop text (para # paras) =
     (case para of
        Inl e \<Rightarrow> (text, Some e)
      | Inr t \<Rightarrow> docx_loop (text @ t @ [0x0A]) paras)"

definition extract_try :: "uploaded_file \<Rightarrow> ustr \<times> exn option" where
  "extract_try file =
     (if endswith (name file) (str ''.txt'') then
        (case decoded file of Inl e \<Rightarrow> ([], Some e) | Inr t \<Rightarrow> (t, None))
      else if endswith (name file) (str ''.pdf'') then
        (case pdf_pages file of Inl e \<Rightarrow> ([], Some e) | Inr pages \<Rightarrow> pdf_loop [] pages)
      else if endswith (name file) (str ''.docx'') then
        (case docx_paragraphs file of Inl e \<Rightarrow> ([], Some e) | Inr paras \<Rightarrow> docx_loop [] paras)
      else ([], None))"

definition extract_text :: "uploaded_file \<Rightarrow> ustr \<times> ui_event list" where
  "extract_text file =
     (case extract_try file of
        (text, None) \<Rightarrow> (text, [])
      | (text, Some e) \<Rightarrow> (text, [StError (ExtractFailed e)]))"

section \<open>Session state and the reset button (fk.py, lines 11-17)\<close>

text \<open>
  \<open>st.session_state\<close> is a dictionary from key strings to values; \<open>pop(key, None)\<close>
  removes the key when it is there and does nothing otherwise.
\<close>

type_synonym 'v session_state = "ustr \<rightharpoonup> 'v"

definition pop :: "'v session_state \<Rightarrow> ustr \<Rightarrow> 'v session_state" where
  "pop st key = st(key := None)"

definition reset_keys :: "ustr list" where
  "reset_keys = [str ''faktabas'', str ''larandemal_och_indikatorer'', str ''mcqs'']"

definition reset :: "'v session_state \<Rightarrow> 'v session_state" where
  "reset st = foldl pop st reset_keys"

section \<open>The number of learning objectives (fk.py, lines 67-68)\<close>

definition num_goals :: "ustr \<Rightarrow> int" where
  "num_goals faktabas =
     (let text_length = int (length faktabas)
      in min (max (text_length div 1000) 3) 8)"

text \<open>The specification's wording: \<open>clamp(x, lo, hi)\<close>.\<close>

definition clamp :: "int \<Rightarrow> int \<Rightarrow> int \<Rightarrow> int" where
  "clamp x lo hi = (if x < lo then lo else if hi < x then hi else x)"

section \<open>The completion service\<close>

text \<open>
  A prompt is known by the values the source formats into it: the number of objectives
  and the fact base (lines 70-92), or the objective, its joined indicators and the fact
  base (lines 158-187). The service answers a prompt with the content of the first
  choice, or an exception is raised before the content is there (lines 94-109 and
  190-203).
\<close>

datatype prompt = ObjectivesPrompt int ustr | McqPrompt pyval ustr pyval

type_synonym completion = "prompt \<Rightarrow> exn + ustr"

section \<open>Code fences (fk.py, lines 109-116 and 203-210)\<close>

definition fence :: ustr where
  "fence = str ''```''"

text \<open>
  Both generators treat the reply in the same way. \<open>lines[0]\<close> raises \<open>IndexError\<close>
  on an empty list.
\<close>

definition strip_fences :: "ustr \<Rightarrow> exn + ustr" where
  "strip_fences content =
     (let raw_output = strip content in
      if startswith raw_output fence then
        (case splitlines raw_output of
           [] \<Rightarrow> Inl IndexError
         | first # rest \<Rightarrow>
             (let lines = (if startswith first fence then rest else first # rest);
                  lines = (if lines \<noteq> [] \<and> startswith (last lines) fence
                           then butlast lines else lines)
              in Inr (strip (join [0x0A] lines))))
      else Inr raw_output)"

section \<open>Learning objectives (fk.py, lines 54-132)\<close>

text \<open>
  The outer \<open>try\<close> block; \<open>Inl\<close> is an exception that reaches the outer handler.
  The client is made before the block (line 66) from the key that \<open>main\<close> has
  checked to be non-empty.
\<close>

definition objectives_try ::
  "(ustr \<Rightarrow> exn + pyval) \<Rightarrow> completion \<Rightarrow> ustr \<Rightarrow> exn + (pyval \<times> ui_event list)" where
  "objectives_try loads create faktabas =
     (case create (ObjectivesPrompt (num_goals faktabas) faktabas) of
        Inl e \<Rightarrow> Inl e
      | Inr content \<Rightarrow>
          (case strip_fences content of
             Inl e \<Rightarrow> Inl e
           | Inr raw_output \<Rightarrow>
               if raw_output = [] then Inr (PyList [], [StError EmptyResponse])
               else
                 (case loads raw_output of
                    Inl json_err \<Rightarrow>
                      Inr (PyList [],
                           [StError (JsonParseFailed json_err), StWrite (RawOutput raw_output)])
                  | Inr learning_objectives \<Rightarrow> Inr (learning_objectives, []))))"

definition generate_learning_objectives ::
  "(ustr \<Rightarrow> exn + pyval) \<Rightarrow> completion \<Rightarrow> ustr \<Rightarrow> pyval \<times> ui_event list" where
  "generate_learning_objectives loads create faktabas =
     (case objectives_try loads create faktabas of
        Inl e \<Rightarrow> (PyList [], [StError (ObjectivesFailed e)])
      | Inr r \<Rightarrow> r)"

section \<open>Questions for one objective (fk.py, lines 134-216)\<close>

definition mcq_try ::
  "(ustr \<Rightarrow> exn + pyval) \<Rightarrow> completion \<Rightarrow> prompt \<Rightarrow> exn + pyval" where
  "mcq_try loads create mcq_prompt =
     (case create mcq_prompt of
        Inl e \<Rightarrow> Inl e
      | Inr content \<Rightarrow>
          (case strip_fences content of
             Inl e \<Rightarrow> Inl e
           | Inr raw_output \<Rightarrow> loads raw_output))"

text \<open>
  The prompt is built before the \<open>try\<close> block, so an exception of
  \<open>"\n".join(indikatorer)\<close> leaves the function.
\<close>

definition generate_mcq ::
  "(ustr \<Rightarrow> exn + pyval) \<Rightarrow> completion \<Rightarrow> pyval \<Rightarrow> pyval \<Rightarrow> pyval
     \<Rightarrow> exn + (pyval \<times> ui_event list)" where
  "generate_mcq loads create larandemal indikatorer faktabas =
     (case py_join [0x0A] indikatorer of
        Inl e \<Rightarrow> Inl e
      | Inr joined \<Rightarrow>
          Inr (case mcq_try loads create (McqPrompt larandemal joined faktabas) of
                 Inl e \<Rightarrow> (PyList [], [StError (McqFailed e)])
               | Inr mcqs \<Rightarrow> (mcqs, [])))"

section \<open>The main flow (fk.py, lines 228-234 and 257-264)\<close>

definition main_upload ::
  "pyval session_state \<Rightarrow> uploaded_file option \<Rightarrow> pyval session_state \<times> ui_event list" where
  "main_upload st uploaded =
     (case uploaded of
        None \<Rightarrow> (st, [])
      | Some file \<Rightarrow>
          (case extract_text file of
             (faktabas, shown) \<Rightarrow>
               if faktabas \<noteq> []
               then (st(str ''faktabas'' \<mapsto> PyStr faktabas),
                     shown @ [StSuccess (Uploaded (name file))])
               else (st, shown @ [StError NoTextExtracted])))"

text \<open>
  The loop over the stored objectives. The service is asked once for each objective;
  \<open>service n\<close> is its answer to the call number \<open>n\<close>. The result is the dictionary
  \<open>mcqs_all\<close>, or the exception that ended the loop, with what was shown on the way.
\<close>

fun mcq_loop ::
  "(ustr \<Rightarrow> exn + pyval) \<Rightarrow> (nat \<Rightarrow> completion) \<Rightarrow> pyval session_state \<Rightarrow> nat
     \<Rightarrow> pyval list \<Rightarrow> (pyval \<times> pyval) list \<Rightarrow> ui_event list
     \<Rightarrow> (exn + (pyval \<times> pyval) list) \<times> ui_event list" where
  "mcq_loop loads service st n [] mcqs_all shown = (Inr mcqs_all, shown)"
| "mcq_loop loads service st n (obj # objs) mcqs_all shown =
     (case py_get obj (PyStr (str ''larandemal'')) (PyStr []) of
        Inl e \<Rightarrow> (Inl e, shown)
      | Inr larandemal \<Rightarrow>
     (case py_get obj (PyStr (str ''indikatorer'')) (PyList []) of
        Inl e \<Rightarrow> (Inl e, shown)
      | Inr indikatorer \<Rightarrow>
     (case st (str ''faktabas'') of
        None \<Rightarrow> (Inl KeyError, shown)
      | Some faktabas \<Rightarrow>
     (case generate_mcq loads (service n) larandemal indikatorer faktabas of
        Inl e \<Rightarrow> (Inl e, shown)
      | Inr (mcqs, errors) \<Rightarrow>
     (case dict_setitem mcqs_all larandemal mcqs of
        Inl e \<Rightarrow> (Inl e, shown @ errors)
      | Inr mcqs_all' \<Rightarrow>
          mcq_loop loads service st (Suc n) objs mcqs_all' (shown @ errors))))))"

definition main_questions ::
  "(ustr \<Rightarrow> exn + pyval) \<Rightarrow> (nat \<Rightarrow> completion) \<Rightarrow> pyval session_state
     \<Rightarrow> (exn + pyval session_state) \<times> ui_event list" where
  "main_questions loads service st =
     (case st (str ''larandemal_och_indikatorer'') of
        None \<Rightarrow> (Inl KeyError, [])
      | Some objectives \<Rightarrow>
          (case py_iter objectives of
             Inl e \<Rightarrow> (Inl e, [])
           | Inr objs \<Rightarrow>
               (case mcq_loop loads service st 0 objs [] [] of
                  (Inl e, shown) \<Rightarrow> (Inl e, shown)
                | (Inr mcqs_all, shown) \<Rightarrow> (Inr (st(str ''mcqs'' \<mapsto> PyDict mcqs_all)), shown))))"

section \<open>Properties\<close>

lemma foldl_pop: "foldl pop st ks k = (if k \<in> set ks then None else st k)"
  by (induction ks arbitrary: st) (auto simp: pop_def)

lemma reset_apply: "reset st k = (if k \<in> set reset_keys then None else st k)"
  unfolding reset_def by (rule foldl_pop)

lemma set_reset_keys:
  "set reset_keys = {str ''faktabas'', str ''larandemal_och_indikatorer'', str ''mcqs''}"
  by (simp add: reset_keys_def)

lemma api_key_kept: "str ''api_key'' \<notin> set reset_keys"
  by (simp add: reset_keys_def str_def)

text \<open>The definitions that evaluate the string operations on a given text.\<close>

lemmas string_defs = strip_fences_def strip_def lstrip_def rstrip_def is_space_def
  startswith_def endswith_def fence_def str_def quoted_def splitlines_def is_linebreak_def
  Let_def

text \<open>The \<open>IndexError\<close> of \<open>lines[0]\<close> is never raised.\<close>

lemma splitlines_from_Nil: "splitlines_from line s = [] \<longleftrightarrow> line = [] \<and> s = []"
  by (induction line s rule: splitlines_from.induct) auto

lemma strip_fences_returns: "\<exists>raw_output. strip_fences content = Inr raw_output"
proof (cases "startswith (strip content) fence")
  case True
  then have "strip content \<noteq> []" by (auto simp: startswith_def fence_def str_def)
  then have "splitlines (strip content) \<noteq> []" by (simp add: splitlines_def splitlines_from_Nil)
  then obtain l ls where "splitlines (strip content) = l # ls" by (cases "splitlines (strip content)") auto
  with True show ?thesis by (simp add: strip_fences_def Let_def)
next
  case False
  then show ?thesis by (simp add: strip_fences_def Let_def)
qed

lemma pdf_loop_prefix:
  "pdf_loop acc (map Inr texts @ Inl e # rest) =
     (acc @ concat (map (\<lambda>p. case p of None \<Rightarrow> [] | Some t \<Rightarrow> if t = [] then [] else t @ [0x0A]) texts),
      Some e)"
  by (induction texts arbitrary: acc) (auto split: option.splits)

lemma docx_loop_prefix:
  "docx_loop acc (map Inr texts @ Inl e # rest) =
     (acc @ concat (map (\<lambda>t. t @ [0x0A]) texts), Some e)"
  by (induction texts arbitrary: acc) auto

lemma pdf_loop_all:
  "pdf_loop acc (map Inr texts) =
     (acc @ concat (map (\<lambda>p. case p of None \<Rightarrow> [] | Some t \<Rightarrow> if t = [] then [] else t @ [0x0A]) texts),
      None)"
  by (induction texts arbitrary: acc) (auto split: option.splits)

lemma docx_loop_all:
  "docx_loop acc (map Inr texts) = (acc @ concat (map (\<lambda>t. t @ [0x0A]) texts), None)"
  by (induction texts arbitrary: acc) auto

text \<open>Every list of outcomes is a run of successes, followed or not by a first failure.\<close>

lemma outcomes_cases:
  "(\<exists>ys. xs = map Inr ys) \<or> (\<exists>ys e rest. xs = map Inr ys @ Inl e # rest)"
proof (induction xs)
  case Nil
  show ?case by simp
next
  case (Cons x xs)
  show ?case
  proof (cases x)
    case (Inl e)
    then have "x # xs = map Inr [] @ Inl e # xs" by simp
    then show ?thesis by (intro disjI2 exI)
  next
    case (Inr y)
    from Cons.IH show ?thesis
    proof
      assume "\<exists>ys. xs = map Inr ys"
      then obtain ys where "xs = map Inr ys" ..
      with Inr have "x # xs = map Inr (y # ys)" by simp
      then show ?thesis by (intro disjI1 exI)
    next
      assume "\<exists>ys e rest. xs = map Inr ys @ Inl e # rest"
      then obtain ys e rest where "xs = map Inr ys @ Inl e # rest" by blast
      with Inr have "x # xs = map Inr (y # ys) @ Inl e # rest" by simp
      then show ?thesis by (intro disjI2 exI)
    qed
  qed
qed

lemma ends_txt: "endswith (str ''a.txt'') (str ''.txt'')"
  by (simp add: endswith_def str_def)

lemma ends_pdf: "\<not> endswith (str ''a.pdf'') (str ''.txt'') \<and> endswith (str ''a.pdf'') (str ''.pdf'')"
  by (simp add: endswith_def str_def)

lemma ends_docx:
  "\<not> endswith (str ''a.docx'') (str ''.txt'') \<and> \<not> endswith (str ''a.docx'') (str ''.pdf'')
   \<and> endswith (str ''a.docx'') (str ''.docx'')"
  by (simp add: endswith_def str_def)

text \<open>The dictionary of questions and the loop that fills it.\<close>

lemma dict_lookup_store_same: "dict_lookup (dict_store d k v) k = Some v"
  by (induction d) auto

lemma dict_lookup_store_other:
  "py_key k' \<noteq> py_key k \<Longrightarrow> dict_lookup (dict_store d k v) k' = dict_lookup d k'"
  by (induction d) auto

lemma keys_dict_store:
  "map (py_key \<circ> fst) (dict_store d k v) =
     (if py_key k \<in> set (map (py_key \<circ> fst) d) then map (py_key \<circ> fst) d
      else map (py_key \<circ> fst) d @ [py_key k])"
proof (induction d)
  case Nil
  show ?case by simp
next
  case (Cons p d)
  obtain k' v' where p: "p = (k', v')" by (cases p)
  show ?case
  proof (cases "py_key k' = py_key k")
    case True
    with p show ?thesis by simp
  next
    case False
    then have "py_key k \<noteq> py_key k'" by simp
    with False p Cons.IH show ?thesis by simp
  qed
qed

lemma distinct_dict_store:
  "distinct (map (py_key \<circ> fst) d) \<Longrightarrow> distinct (map (py_key \<circ> fst) (dict_store d k v))"
  by (simp add: keys_dict_store)

lemma set_keys_dict_store:
  "set (map (py_key \<circ> fst) (dict_store d k v)) = insert (py_key k) (set (map (py_key \<circ> fst) d))"
  by (auto simp: keys_dict_store)

lemma dict_setitem_hashable:
  "py_key k \<noteq> None \<Longrightarrow> dict_setitem d k v = Inr (dict_store d k v)"
  by (simp add: dict_setitem_def)

lemma mcq_loop_Cons_Inr:
  assumes "mcq_loop loads service st n (obj # objs) d0 s0 = (Inr d, s)"
  obtains larandemal indikatorer faktabas mcqs errors where
    "py_get obj (PyStr (str ''larandemal'')) (PyStr []) = Inr larandemal"
    "py_get obj (PyStr (str ''indikatorer'')) (PyList []) = Inr indikatorer"
    "st (str ''faktabas'') = Some faktabas"
    "generate_mcq loads (service n) larandemal indikatorer faktabas = Inr (mcqs, errors)"
    "py_key larandemal \<noteq> None"
    "mcq_loop loads service st (Suc n) objs (dict_store d0 larandemal mcqs) (s0 @ errors) = (Inr d, s)"
  using assms
  by (auto simp: dict_setitem_def split: sum.splits option.splits prod.splits if_splits)

lemma mcq_loop_append:
  "mcq_loop loads service st n pre d0 s0 = (Inr d, s) \<Longrightarrow>
   mcq_loop loads service st n (pre @ rest) d0 s0 =
     mcq_loop loads service st (n + length pre) rest d s"
proof (induction pre arbitrary: n d0 s0)
  case Nil
  then show ?case by simp
next
  case (Cons obj pre)
  from Cons.prems obtain larandemal indikatorer faktabas mcqs errors where
    a: "py_get obj (PyStr (str ''larandemal'')) (PyStr []) = Inr larandemal"
      "py_get obj (PyStr (str ''indikatorer'')) (PyList []) = Inr indikatorer"
      "st (str ''faktabas'') = Some faktabas"
      "generate_mcq loads (service n) larandemal indikatorer faktabas = Inr (mcqs, errors)"
      "py_key larandemal \<noteq> None"
    and r: "mcq_loop loads service st (Suc n) pre (dict_store d0 larandemal mcqs) (s0 @ errors) = (Inr d, s)"
    by (rule mcq_loop_Cons_Inr)
  from Cons.IH [OF r] a(1-4) show ?case
    by (simp add: dict_setitem_hashable [OF a(5)])
qed

lemma generate_mcq_decode_failure:
  assumes "py_join [0x0A] indikatorer = Inr joined"
    and "create (McqPrompt larandemal joined faktabas) = Inr content"
    and "strip_fences content = Inr raw_output"
    and "loads raw_output = Inl e"
  shows "generate_mcq loads create larandemal indikatorer faktabas
           = Inr (PyList [], [StError (McqFailed e)])"
  using assms by (simp add: generate_mcq_def mcq_try_def)

text \<open>Entries of keys that are the title of no objective are not touched.\<close>

lemma mcq_loop_other_keys:
  assumes "mcq_loop loads service st n objs d0 s0 = (Inr d, s)"
    and "\<forall>obj \<in> set objs. \<forall>t. py_get obj (PyStr (str ''larandemal'')) (PyStr []) = Inr t
            \<longrightarrow> py_key t \<noteq> py_key k"
  shows "dict_lookup d k = dict_lookup d0 k"
  using assms
proof (induction objs arbitrary: n d0 s0)
  case Nil
  then show ?case by simp
next
  case (Cons obj objs)
  from Cons.prems(1) obtain larandemal indikatorer faktabas mcqs errors where
    a: "py_get obj (PyStr (str ''larandemal'')) (PyStr []) = Inr larandemal"
    and r: "mcq_loop loads service st (Suc n) objs (dict_store d0 larandemal mcqs) (s0 @ errors) = (Inr d, s)"
    by (rule mcq_loop_Cons_Inr)
  from Cons.prems(2) a have ne: "py_key k \<noteq> py_key larandemal" by auto
  from Cons.prems(2) have "\<forall>obj \<in> set objs. \<forall>t. py_get obj (PyStr (str ''larandemal'')) (PyStr []) = Inr t
            \<longrightarrow> py_key t \<noteq> py_key k" by simp
  from Cons.IH [OF r this] have "dict_lookup d k = dict_lookup (dict_store d0 larandemal mcqs) k" .
  with ne show ?case by (simp add: dict_lookup_store_other)
qed

lemma mcq_loop_last_title:
  assumes "mcq_loop loads service st n objs d0 s0 = (Inr d, s)"
    and "j < length objs"
    and "py_get (objs ! j) (PyStr (str ''larandemal'')) (PyStr []) = Inr title"
    and "py_get (objs ! j) (PyStr (str ''indikatorer'')) (PyList []) = Inr indikatorer"
    and "st (str ''faktabas'') = Some faktabas"
    and "\<forall>k. j < k \<and> k < length objs
            \<longrightarrow> (\<forall>t. py_get (objs ! k) (PyStr (str ''larandemal'')) (PyStr []) = Inr t
                   \<longrightarrow> py_key t \<noteq> py_key title)"
  shows "\<exists>mcqs errors.
           generate_mcq loads (service (n + j)) title indikatorer faktabas = Inr (mcqs, errors)
           \<and> dict_lookup d title = Some mcqs"
  using assms
proof (induction objs arbitrary: n d0 s0 j)
  case Nil
  then show ?case by simp
next
  case (Cons obj objs)
  from Cons.prems(1) obtain larandemal ind0 fb0 mcqs errors where
    a: "py_get obj (PyStr (str ''larandemal'')) (PyStr []) = Inr larandemal"
      "py_get obj (PyStr (str ''indikatorer'')) (PyList []) = Inr ind0"
      "st (str ''faktabas'') = Some fb0"
      "generate_mcq loads (service n) larandemal ind0 fb0 = Inr (mcqs, errors)"
    and r: "mcq_loop loads service st (Suc n) objs (dict_store d0 larandemal mcqs) (s0 @ errors) = (Inr d, s)"
    by (rule mcq_loop_Cons_Inr)
  show ?case
  proof (cases j)
    case 0
    with Cons.prems(3,4,5) a have eq: "larandemal = title" "ind0 = indikatorer" "fb0 = faktabas"
      by simp_all
    have later: "\<forall>o' \<in> set objs. \<forall>t. py_get o' (PyStr (str ''larandemal'')) (PyStr []) = Inr t
            \<longrightarrow> py_key t \<noteq> py_key title"
    proof (intro ballI allI impI)
      fix o' t
      assume "o' \<in> set objs" and t: "py_get o' (PyStr (str ''larandemal'')) (PyStr []) = Inr t"
      then obtain i where i: "i < length objs" "objs ! i = o'" by (auto simp: in_set_conv_nth)
      with Cons.prems(6) 0 t show "py_key t \<noteq> py_key title"
        by (auto dest!: spec [where x = "Suc i"])
    qed
    from mcq_loop_other_keys [OF r later]
    have "dict_lookup d title = dict_lookup (dict_store d0 larandemal mcqs) title" .
    with eq have "dict_lookup d title = Some mcqs" by (simp add: dict_lookup_store_same)
    with a(4) eq 0 show ?thesis by simp
  next
    case (Suc j')
    with Cons.prems have p: "j' < length objs"
      "py_get (objs ! j') (PyStr (str ''larandemal'')) (PyStr []) = Inr title"
      "py_get (objs ! j') (PyStr (str ''indikatorer'')) (PyList []) = Inr indikatorer"
      by simp_all
    have later: "\<forall>k. j' < k \<and> k < length objs
            \<longrightarrow> (\<forall>t. py_get (objs ! k) (PyStr (str ''larandemal'')) (PyStr []) = Inr t
                   \<longrightarrow> py_key t \<noteq> py_key title)"
    proof (intro allI impI)
      fix k t
      assume "j' < k \<and> k < length objs"
        and "py_get (objs ! k) (PyStr (str ''larandemal'')) (PyStr []) = Inr t"
      with Cons.prems(6) Suc show "py_key t \<noteq> py_key title"
        by (auto dest!: spec [where x = "Suc k"])
    qed
    from Cons.IH [OF r p Cons.prems(5) later] Suc show ?thesis by simp
  qed
qed

lemma mcq_loop_keys:
  assumes "mcq_loop loads service st n objs d0 s0 = (Inr d, s)"
  shows "(distinct (map (py_key \<circ> fst) d0) \<longrightarrow> distinct (map (py_key \<circ> fst) d))
       \<and> set (map (py_key \<circ> fst) d) =
           set (map (py_key \<circ> fst) d0)
           \<union> {py_key t | t. \<exists>obj \<in> set objs. py_get obj (PyStr (str ''larandemal'')) (PyStr []) = Inr t}"
  using assms
proof (induction objs arbitrary: n d0 s0)
  case Nil
  then show ?case by simp
next
  case (Cons obj objs)
  from Cons.prems(1) obtain larandemal indikatorer faktabas mcqs errors where
    a: "py_get obj (PyStr (str ''larandemal'')) (PyStr []) = Inr larandemal"
    and r: "mcq_loop loads service st (Suc n) objs (dict_store d0 larandemal mcqs) (s0 @ errors) = (Inr d, s)"
    by (rule mcq_loop_Cons_Inr)
  note ih = Cons.IH [OF r]
  from ih have
    dist: "distinct (map (py_key \<circ> fst) (dict_store d0 larandemal mcqs)) \<longrightarrow> distinct (map (py_key \<circ> fst) d)"
    by (rule conjunct1)
  from ih have
    keys: "set (map (py_key \<circ> fst) d) =
           set (map (py_key \<circ> fst) (dict_store d0 larandemal mcqs))
           \<union> {py_key t | t. \<exists>obj \<in> set objs. py_get obj (PyStr (str ''larandemal'')) (PyStr []) = Inr t}"
    by (rule conjunct2)
  have "distinct (map (py_key \<circ> fst) d0) \<longrightarrow> distinct (map (py_key \<circ> fst) d)"
    using dist distinct_dict_store by blast
  moreover have "set (map (py_key \<circ> fst) d) =
           set (map (py_key \<circ> fst) d0)
           \<union> {py_key t | t. \<exists>o' \<in> set (obj # objs). py_get o' (PyStr (str ''larandemal'')) (PyStr []) = Inr t}"
    unfolding keys set_keys_dict_store using a by auto
  ultimately show ?case by (rule conjI)
qed

lemma main_questions_Inr:
  assumes "main_questions loads service st = (Inr st', shown)"
  obtains objectives objs mcqs_all where
    "st (str ''larandemal_och_indikatorer'') = Some objectives"
    "py_iter objectives = Inr objs"
    "mcq_loop loads service st 0 objs [] [] = (Inr mcqs_all, shown)"
    "st' = st(str ''mcqs'' \<mapsto> PyDict mcqs_all)"
  using assms
  by (auto simp: main_questions_def split: option.splits sum.splits prod.splits)

text \<open>Replies used as examples.\<close>

lemma strip_fences_plain:
  "strip_fences (str ''[1]'') = Inr (str ''[1]'')"
  "strip_fences (str ''[2]'') = Inr (str ''[2]'')"
  "strip_fences (str ''[3]'') = Inr (str ''[3]'')"
  "strip_fences (str ''oops'') = Inr (str ''oops'')"
  by (simp_all add: string_defs)

lemma json_loads_examples:
  "json_loads (str ''[1]'') = Inr (PyList [PyInt 1])"
  "json_loads (str ''[2]'') = Inr (PyList [PyInt 2])"
  "json_loads (str ''[3]'') = Inr (PyList [PyInt 3])"
  "json_loads (str ''oops'') = Inl JSONDecodeError"
  by code_simp+

lemma generate_mcq_examples:
  "generate_mcq json_loads (\<lambda>p. Inr (str ''[1]'')) t (PyList []) f = Inr (PyList [PyInt 1], [])"
  "generate_mcq json_loads (\<lambda>p. Inr (str ''[2]'')) t (PyList []) f = Inr (PyList [PyInt 2], [])"
  "generate_mcq json_loads (\<lambda>p. Inr (str ''[3]'')) t (PyList []) f = Inr (PyList [PyInt 3], [])"
  "generate_mcq json_loads (\<lambda>p. Inr (str ''oops'')) t (PyList []) f
     = Inr (PyList [], [StError (McqFailed JSONDecodeError)])"
  by (simp_all add: generate_mcq_def mcq_try_def py_join_def py_iter_def
      strip_fences_plain json_loads_examples)

lemma title_examples:
  "py_get (PyDict [(PyStr (str ''larandemal''), PyStr t)]) (PyStr (str ''larandemal'')) (PyStr [])
     = Inr (PyStr t)"
  "py_get (PyDict [(PyStr (str ''larandemal''), PyStr t)]) (PyStr (str ''indikatorer'')) (PyList [])
     = Inr (PyList [])"
  by (simp_all add: py_get_def str_def)






















text \<open>
  C1. For every fact base the objective count is
  \<open>clamp(floor(len(factBase) / 1000), 3, 8)\<close>, so it lies between 3 and 8; a fact base
  of 3500 characters gives 3 and one of 9000 characters gives 8. (The statement needs
  no assumption that the fact base is non-empty.)
\<close>

theorem num_goals_clamp:
  "num_goals faktabas = clamp (int (length faktabas) div 1000) 3 8
   \<and> 3 \<le> num_goals faktabas \<and> num_goals faktabas \<le> 8
   \<and> (length faktabas = 3500 \<longrightarrow> num_goals faktabas = 3)
   \<and> (length faktabas = 9000 \<longrightarrow> num_goals faktabas = 8)"
  by (auto simp: num_goals_def clamp_def Let_def)

theorem num_goals_clamp_witness:
  "length (replicate 3500 (97::nat)) = 3500 \<and> num_goals (replicate 3500 97) = 3
   \<and> length (replicate 9000 (97::nat)) = 9000 \<and> num_goals (replicate 9000 97) = 8"
  using num_goals_clamp [of "replicate 3500 97"] num_goals_clamp [of "replicate 9000 97"]
  by simp

text \<open>
  C3. The reset removes exactly the three keys of the fact base, the objectives and the
  questions; every other entry of the session state, the API key among them, is as it
  was.
\<close>

theorem reset_frame:
  "reset st k =
     (if k = str ''faktabas'' \<or> k = str ''larandemal_och_indikatorer'' \<or> k = str ''mcqs''
      then None else st k)
   \<and> reset st (str ''api_key'') = st (str ''api_key'')
   \<and> dom (reset st) =
       dom st - {str ''faktabas'', str ''larandemal_och_indikatorer'', str ''mcqs''}"
proof (intro conjI)
  show "reset st k =
     (if k = str ''faktabas'' \<or> k = str ''larandemal_och_indikatorer'' \<or> k = str ''mcqs''
      then None else st k)"
    by (simp add: reset_apply set_reset_keys)
  show "reset st (str ''api_key'') = st (str ''api_key'')"
    by (simp add: reset_apply api_key_kept)
  show "dom (reset st) =
       dom st - {str ''faktabas'', str ''larandemal_och_indikatorer'', str ''mcqs''}"
    unfolding set_reset_keys [symmetric]
    by (auto simp: reset_apply dom_def split: if_splits)
qed

text \<open>
  C5. When the reply for the objectives is empty once it is trimmed and its fences are
  removed, \<open>generate_learning_objectives\<close> shows the error of line 119 (the reply
  was empty) and returns the empty list; no exception leaves the function, whose
  result has no exceptional case.
\<close>

theorem empty_reply_reported:
  assumes "create (ObjectivesPrompt (num_goals faktabas) faktabas) = Inr content"
    and "strip_fences content = Inr []"
  shows "generate_learning_objectives loads create faktabas = (PyList [], [StError EmptyResponse])"
  using assms by (simp add: generate_learning_objectives_def objectives_try_def)

theorem empty_reply_reported_witness:
  "(\<lambda>p. Inr (str ''```json'' @ [0x0A] @ str ''```'' @ [0x0A]))
      (ObjectivesPrompt (num_goals (str ''abc'')) (str ''abc''))
     = (Inr (str ''```json'' @ [0x0A] @ str ''```'' @ [0x0A]) :: exn + ustr)
   \<and> strip_fences (str ''```json'' @ [0x0A] @ str ''```'' @ [0x0A]) = Inr []
   \<and> generate_learning_objectives json_loads
        (\<lambda>p. Inr (str ''```json'' @ [0x0A] @ str ''```'' @ [0x0A])) (str ''abc'')
     = (PyList [], [StError EmptyResponse])"
proof -
  have s: "strip_fences (str ''```json'' @ [0x0A] @ str ''```'' @ [0x0A]) = Inr []"
    by (simp add: string_defs)
  show ?thesis
    using s empty_reply_reported [of "\<lambda>p. Inr (str ''```json'' @ [0x0A] @ str ''```'' @ [0x0A])"
        "str ''abc''" "str ''```json'' @ [0x0A] @ str ''```'' @ [0x0A]" json_loads]
    by simp
qed

text \<open>
  C10. A reply that decodes is returned as it was decoded, whatever its shape (an
  object, a string, a number), and nothing is shown: by
  \<open>generate_learning_objectives\<close> when the stripped reply is not empty, and by
  \<open>generate_mcq\<close> when the indicators could be joined into the prompt.
\<close>

theorem decoded_value_returned_as_is:
  assumes "strip_fences content = Inr raw_output"
    and "raw_output \<noteq> []"
    and "loads raw_output = Inr v"
  shows "(create (ObjectivesPrompt (num_goals faktabas) faktabas) = Inr content
            \<longrightarrow> generate_learning_objectives loads create faktabas = (v, []))
       \<and> (py_join [0x0A] indikatorer = Inr joined
            \<and> create' (McqPrompt larandemal joined fb) = Inr content
            \<longrightarrow> generate_mcq loads create' larandemal indikatorer fb = Inr (v, []))"
  using assms
  by (simp add: generate_learning_objectives_def objectives_try_def generate_mcq_def mcq_try_def)

theorem decoded_value_returned_as_is_witness:
  "strip_fences (str ''{'' @ quoted ''a'' @ str '': 1}'') = Inr (str ''{'' @ quoted ''a'' @ str '': 1}'')
   \<and> str ''{'' @ quoted ''a'' @ str '': 1}'' \<noteq> []
   \<and> json_loads (str ''{'' @ quoted ''a'' @ str '': 1}'') = Inr (PyDict [(PyStr (str ''a''), PyInt 1)])
   \<and> generate_learning_objectives json_loads (\<lambda>p. Inr (str ''{'' @ quoted ''a'' @ str '': 1}''))
        (str ''abc'')
      = (PyDict [(PyStr (str ''a''), PyInt 1)], [])
   \<and> py_join [0x0A] (PyList [PyStr (str ''x'')]) = Inr (str ''x'')
   \<and> generate_mcq json_loads (\<lambda>p. Inr (str ''{'' @ quoted ''a'' @ str '': 1}''))
        (PyStr (str ''Lista x'')) (PyList [PyStr (str ''x'')]) (PyStr (str ''abc''))
      = Inr (PyDict [(PyStr (str ''a''), PyInt 1)], [])"
proof -
  have s: "strip_fences (str ''{'' @ quoted ''a'' @ str '': 1}'')
             = Inr (str ''{'' @ quoted ''a'' @ str '': 1}'')"
    by (simp add: string_defs)
  have n: "str ''{'' @ quoted ''a'' @ str '': 1}'' \<noteq> []"
    by (simp add: str_def)
  have l: "json_loads (str ''{'' @ quoted ''a'' @ str '': 1}'')
             = Inr (PyDict [(PyStr (str ''a''), PyInt 1)])"
    by code_simp
  have j: "py_join [0x0A] (PyList [PyStr (str ''x'')]) = Inr (str ''x'')"
    by (simp add: py_join_def py_iter_def)
  show ?thesis
    using s n l j
      decoded_value_returned_as_is [where content = "str ''{'' @ quoted ''a'' @ str '': 1}''"
        and raw_output = "str ''{'' @ quoted ''a'' @ str '': 1}''" and loads = json_loads
        and v = "PyDict [(PyStr (str ''a''), PyInt 1)]"
        and create = "\<lambda>p. Inr (str ''{'' @ quoted ''a'' @ str '': 1}'')"
        and faktabas = "str ''abc''" and indikatorer = "PyList [PyStr (str ''x'')]"
        and joined = "str ''x''"
        and create' = "\<lambda>p. Inr (str ''{'' @ quoted ''a'' @ str '': 1}'')"
        and larandemal = "PyStr (str ''Lista x'')" and fb = "PyStr (str ''abc'')"]
    by simp
qed

text \<open>
  C6. \<open>extract_text\<close> has no exceptional outcome: it returns a text together with
  nothing or with one error message. Whatever is raised inside the \<open>try\<close> block is
  caught and shown, and the text gathered up to that point is returned: the empty
  text when a \<open>.txt\<close> file does not decode, when \<open>pdfplumber.open\<close> (or \<open>pdf.pages\<close>)
  raises and when \<open>docx.Document\<close> (or \<open>doc.paragraphs\<close>) raises; the lines of the
  pages before the failing page of a \<open>.pdf\<close> file; the paragraphs before the failing
  one of a \<open>.docx\<close> file. When nothing is raised the whole text is returned and
  nothing is shown. By \<open>outcomes_cases\<close> every list of pages or paragraphs is of one
  of the two shapes, so every file falls under one of the cases.
\<close>

theorem extract_text_catches:
  "(endswith (name file) (str ''.txt'') \<longrightarrow>
      (decoded file = Inl e \<longrightarrow> extract_text file = ([], [StError (ExtractFailed e)]))
    \<and> (decoded file = Inr t \<longrightarrow> extract_text file = (t, [])))
   \<and> (\<not> endswith (name file) (str ''.txt'') \<and> endswith (name file) (str ''.pdf'') \<longrightarrow>
      (pdf_pages file = Inl e \<longrightarrow> extract_text file = ([], [StError (ExtractFailed e)]))
    \<and> (pdf_pages file = Inr (map Inr texts @ Inl e # rest) \<longrightarrow>
         extract_text file =
           (concat (map (\<lambda>p. case p of None \<Rightarrow> [] | Some t \<Rightarrow> if t = [] then [] else t @ [0x0A]) texts),
            [StError (ExtractFailed e)]))
    \<and> (pdf_pages file = Inr (map Inr texts) \<longrightarrow>
         extract_text file =
           (concat (map (\<lambda>p. case p of None \<Rightarrow> [] | Some t \<Rightarrow> if t = [] then [] else t @ [0x0A]) texts),
            [])))
   \<and> (\<not> endswith (name file) (str ''.txt'') \<and> \<not> endswith (name file) (str ''.pdf'')
        \<and> endswith (name file) (str ''.docx'') \<longrightarrow>
      (docx_paragraphs file = Inl e \<longrightarrow> extract_text file = ([], [StError (ExtractFailed e)]))
    \<and> (docx_paragraphs file = Inr (map Inr paras @ Inl e # rest') \<longrightarrow>
         extract_text file = (concat (map (\<lambda>t. t @ [0x0A]) paras), [StError (ExtractFailed e)]))
    \<and> (docx_paragraphs file = Inr (map Inr paras) \<longrightarrow>
         extract_text file = (concat (map (\<lambda>t. t @ [0x0A]) paras), [])))
   \<and> (\<not> endswith (name file) (str ''.txt'') \<and> \<not> endswith (name file) (str ''.pdf'')
        \<and> \<not> endswith (name file) (str ''.docx'') \<longrightarrow> extract_text file = ([], []))
   \<and> (\<exists>text. extract_text file = (text, [])
         \<or> (\<exists>raised. extract_text file = (text, [StError (ExtractFailed raised)])))"
proof (intro conjI impI)
  show "\<exists>text. extract_text file = (text, [])
         \<or> (\<exists>raised. extract_text file = (text, [StError (ExtractFailed raised)]))"
    by (cases "extract_try file") (auto simp: extract_text_def split: option.splits)
qed (simp_all add: extract_text_def extract_try_def pdf_loop_prefix docx_loop_prefix
      pdf_loop_all docx_loop_all)

theorem extract_text_catches_witness:
  "extract_text \<lparr>name = str ''a.txt'', decoded = Inl (LibraryError (str ''bad'')),
       pdf_pages = Inr [], docx_paragraphs = Inr []\<rparr>
     = ([], [StError (ExtractFailed (LibraryError (str ''bad'')))])
   \<and> extract_text \<lparr>name = str ''a.pdf'', decoded = Inr [],
       pdf_pages = Inl (LibraryError (str ''bad'')), docx_paragraphs = Inr []\<rparr>
     = ([], [StError (ExtractFailed (LibraryError (str ''bad'')))])
   \<and> extract_text \<lparr>name = str ''a.pdf'', decoded = Inr [],
       pdf_pages = Inr [Inr (Some (str ''one'')), Inr None, Inr (Some []),
                        Inl (LibraryError (str ''bad'')), Inr (Some (str ''five''))],
       docx_paragraphs = Inr []\<rparr>
     = (str ''one'' @ [0x0A], [StError (ExtractFailed (LibraryError (str ''bad'')))])
   \<and> extract_text \<lparr>name = str ''a.pdf'', decoded = Inr [],
       pdf_pages = Inr [Inr (Some (str ''one'')), Inr None, Inr (Some (str ''two''))],
       docx_paragraphs = Inr []\<rparr>
     = (str ''one'' @ [0x0A] @ str ''two'' @ [0x0A], [])
   \<and> extract_text \<lparr>name = str ''a.docx'', decoded = Inr [], pdf_pages = Inr [],
       docx_paragraphs = Inl (LibraryError (str ''bad''))\<rparr>
     = ([], [StError (ExtractFailed (LibraryError (str ''bad'')))])
   \<and> extract_text \<lparr>name = str ''a.docx'', decoded = Inr [], pdf_pages = Inr [],
       docx_paragraphs = Inr [Inr (str ''one''), Inr [], Inl (LibraryError (str ''bad''))]\<rparr>
     = (str ''one'' @ [0x0A, 0x0A], [StError (ExtractFailed (LibraryError (str ''bad'')))])"
  using ends_txt ends_pdf ends_docx
    extract_text_catches [of "\<lparr>name = str ''a.txt'', decoded = Inl (LibraryError (str ''bad'')),
       pdf_pages = Inr [], docx_paragraphs = Inr []\<rparr>" "LibraryError (str ''bad'')",
       THEN conjunct1]
    extract_text_catches [of "\<lparr>name = str ''a.pdf'', decoded = Inr [],
       pdf_pages = Inl (LibraryError (str ''bad'')), docx_paragraphs = Inr []\<rparr>"
       "LibraryError (str ''bad'')", THEN conjunct2, THEN conjunct1]
    extract_text_catches [of "\<lparr>name = str ''a.pdf'', decoded = Inr [],
       pdf_pages = Inr [Inr (Some (str ''one'')), Inr None, Inr (Some []),
                        Inl (LibraryError (str ''bad'')), Inr (Some (str ''five''))],
       docx_paragraphs = Inr []\<rparr>" "LibraryError (str ''bad'')" _
       "[Some (str ''one''), None, Some []]" "[Inr (Some (str ''five''))]",
       THEN conjunct2, THEN conjunct1]
    extract_text_catches [of "\<lparr>name = str ''a.pdf'', decoded = Inr [],
       pdf_pages = Inr [Inr (Some (str ''one'')), Inr None, Inr (Some (str ''two''))],
       docx_paragraphs = Inr []\<rparr>" _ _
       "[Some (str ''one''), None, Some (str ''two'')]",
       THEN conjunct2, THEN conjunct1]
    extract_text_catches [of "\<lparr>name = str ''a.docx'', decoded = Inr [], pdf_pages = Inr [],
       docx_paragraphs = Inl (LibraryError (str ''bad''))\<rparr>"
       "LibraryError (str ''bad'')", THEN conjunct2, THEN conjunct2, THEN conjunct1]
    extract_text_catches [of "\<lparr>name = str ''a.docx'', decoded = Inr [], pdf_pages = Inr [],
       docx_paragraphs = Inr [Inr (str ''one''), Inr [], Inl (LibraryError (str ''bad''))]\<rparr>"
       "LibraryError (str ''bad'')" _ _ _ "[str ''one'', []]" "[]",
       THEN conjunct2, THEN conjunct2, THEN conjunct1]
  by (simp add: str_def)

text \<open>
  C8. A file whose name ends in none of \<open>.txt\<close>, \<open>.pdf\<close> and \<open>.docx\<close> gives the
  empty text, and \<open>extract_text\<close> shows no error.
\<close>

theorem unsupported_extension_empty:
  assumes "\<not> endswith (name file) (str ''.txt'')"
    and "\<not> endswith (name file) (str ''.pdf'')"
    and "\<not> endswith (name file) (str ''.docx'')"
  shows "extract_text file = ([], [])"
  using assms by (simp add: extract_text_def extract_try_def)

theorem unsupported_extension_empty_witness:
  "\<not> endswith (str ''NOTES.TXT'') (str ''.txt'')
   \<and> \<not> endswith (str ''NOTES.TXT'') (str ''.pdf'')
   \<and> \<not> endswith (str ''NOTES.TXT'') (str ''.docx'')
   \<and> extract_text \<lparr>name = str ''NOTES.TXT'', decoded = Inr (str ''hello''),
        pdf_pages = Inl (LibraryError []), docx_paragraphs = Inl (LibraryError [])\<rparr> = ([], [])"
proof -
  have a: "\<not> endswith (str ''NOTES.TXT'') (str ''.txt'')"
    and b: "\<not> endswith (str ''NOTES.TXT'') (str ''.pdf'')"
    and c: "\<not> endswith (str ''NOTES.TXT'') (str ''.docx'')"
    by (simp_all add: endswith_def str_def)
  show ?thesis
    using a b c
      unsupported_extension_empty [of "\<lparr>name = str ''NOTES.TXT'', decoded = Inr (str ''hello''),
        pdf_pages = Inl (LibraryError []), docx_paragraphs = Inl (LibraryError [])\<rparr>"]
    by simp
qed

text \<open>
  C7. On upload, a non-empty extracted text replaces the stored fact base and the
  success message is shown; an empty one shows the error of line 234 and leaves the
  session state, with any earlier fact base, as it was.
\<close>

theorem upload_replaces_or_keeps:
  "(fst (extract_text file) \<noteq> []
      \<longrightarrow> main_upload st (Some file) =
            (st(str ''faktabas'' \<mapsto> PyStr (fst (extract_text file))),
             snd (extract_text file) @ [StSuccess (Uploaded (name file))]))
   \<and> (fst (extract_text file) = []
      \<longrightarrow> main_upload st (Some file) = (st, snd (extract_text file) @ [StError NoTextExtracted]))"
  by (cases "extract_text file") (simp add: main_upload_def)

theorem upload_replaces_or_keeps_witness:
  "fst (extract_text \<lparr>name = str ''a.txt'', decoded = Inr (str ''new''),
         pdf_pages = Inr [], docx_paragraphs = Inr []\<rparr>) \<noteq> []
   \<and> main_upload [str ''faktabas'' \<mapsto> PyStr (str ''old'')]
        (Some \<lparr>name = str ''a.txt'', decoded = Inr (str ''new''),
         pdf_pages = Inr [], docx_paragraphs = Inr []\<rparr>)
      = ([str ''faktabas'' \<mapsto> PyStr (str ''new'')], [StSuccess (Uploaded (str ''a.txt''))])
   \<and> fst (extract_text \<lparr>name = str ''a.txt'', decoded = Inl (LibraryError (str ''bad'')),
         pdf_pages = Inr [], docx_paragraphs = Inr []\<rparr>) = []
   \<and> main_upload [str ''faktabas'' \<mapsto> PyStr (str ''old'')]
        (Some \<lparr>name = str ''a.txt'', decoded = Inl (LibraryError (str ''bad'')),
         pdf_pages = Inr [], docx_paragraphs = Inr []\<rparr>)
      = ([str ''faktabas'' \<mapsto> PyStr (str ''old'')],
         [StError (ExtractFailed (LibraryError (str ''bad''))), StError NoTextExtracted])"
proof -
  have good: "extract_text \<lparr>name = str ''a.txt'', decoded = Inr (str ''new''),
         pdf_pages = Inr [], docx_paragraphs = Inr []\<rparr> = (str ''new'', [])"
    using ends_txt by (simp add: extract_text_def extract_try_def)
  have bad: "extract_text \<lparr>name = str ''a.txt'', decoded = Inl (LibraryError (str ''bad'')),
         pdf_pages = Inr [], docx_paragraphs = Inr []\<rparr>
       = ([], [StError (ExtractFailed (LibraryError (str ''bad'')))])"
    using ends_txt by (simp add: extract_text_def extract_try_def)
  have ne: "str ''new'' \<noteq> []" by (simp add: str_def)
  show ?thesis
    using ne
      upload_replaces_or_keeps [of "\<lparr>name = str ''a.txt'', decoded = Inr (str ''new''),
         pdf_pages = Inr [], docx_paragraphs = Inr []\<rparr>" "[str ''faktabas'' \<mapsto> PyStr (str ''old'')]"]
      upload_replaces_or_keeps [of "\<lparr>name = str ''a.txt'', decoded = Inl (LibraryError (str ''bad'')),
         pdf_pages = Inr [], docx_paragraphs = Inr []\<rparr>" "[str ''faktabas'' \<mapsto> PyStr (str ''old'')]"]
    by (simp add: good bad)
qed

text \<open>
  C4. Let the loop have handled the objectives \<open>pre\<close>, and let the next objective
  \<open>obj\<close> reach the completion call (it is a dictionary, its indicators join into the
  prompt) with a title that can be a dictionary key. If the reply does not decode,
  the loop shows the error of line 215, stores the empty list under the title of
  \<open>obj\<close> (in the place of what an earlier objective with the same title had stored),
  leaves the entry of every other title as it was, and goes on with the objectives
  \<open>post\<close> from that state, asking the service with the next call. When the loop ends
  without an exception, the dictionary it has built holds the empty list under the
  title of \<open>obj\<close> unless a later objective has the same title; it holds what the
  earlier objectives had stored under every other title that no later objective has;
  and under the title of each later objective it holds the questions of the last
  objective with that title, which depend on the reply to that objective alone.
\<close>

theorem decode_failure_isolated:
  assumes "mcq_loop loads service st n pre d0 s0 = (Inr d, s)"
    and "py_get obj (PyStr (str ''larandemal'')) (PyStr []) = Inr larandemal"
    and "py_get obj (PyStr (str ''indikatorer'')) (PyList []) = Inr indikatorer"
    and "st (str ''faktabas'') = Some faktabas"
    and "py_join [0x0A] indikatorer = Inr joined"
    and "py_key larandemal \<noteq> None"
    and "service (n + length pre) (McqPrompt larandemal joined faktabas) = Inr content"
    and "strip_fences content = Inr raw_output"
    and "loads raw_output = Inl e"
  shows "mcq_loop loads service st n (pre @ obj # post) d0 s0 =
           mcq_loop loads service st (n + length pre + 1) post
             (dict_store d larandemal (PyList [])) (s @ [StError (McqFailed e)])
       \<and> dict_lookup (dict_store d larandemal (PyList [])) larandemal = Some (PyList [])
       \<and> (\<forall>k. py_key k \<noteq> py_key larandemal
              \<longrightarrow> dict_lookup (dict_store d larandemal (PyList [])) k = dict_lookup d k)
       \<and> (mcq_loop loads service st n (pre @ obj # post) d0 s0 = (Inr mcqs_all, shown) \<longrightarrow>
            ((\<forall>later \<in> set post. \<forall>t. py_get later (PyStr (str ''larandemal'')) (PyStr []) = Inr t
                  \<longrightarrow> py_key t \<noteq> py_key larandemal)
               \<longrightarrow> dict_lookup mcqs_all larandemal = Some (PyList []))
          \<and> (\<forall>k. py_key k \<noteq> py_key larandemal
                 \<and> (\<forall>later \<in> set post. \<forall>t. py_get later (PyStr (str ''larandemal'')) (PyStr []) = Inr t
                        \<longrightarrow> py_key t \<noteq> py_key k)
               \<longrightarrow> dict_lookup mcqs_all k = dict_lookup d k)
          \<and> (\<forall>j title ind.
                 j < length post
                 \<and> py_get (post ! j) (PyStr (str ''larandemal'')) (PyStr []) = Inr title
                 \<and> py_get (post ! j) (PyStr (str ''indikatorer'')) (PyList []) = Inr ind
                 \<and> (\<forall>k. j < k \<and> k < length post
                        \<longrightarrow> (\<forall>t. py_get (post ! k) (PyStr (str ''larandemal'')) (PyStr []) = Inr t
                               \<longrightarrow> py_key t \<noteq> py_key title))
               \<longrightarrow> (\<exists>mcqs errors.
                      generate_mcq loads (service (n + length pre + 1 + j)) title ind faktabas
                        = Inr (mcqs, errors)
                      \<and> dict_lookup mcqs_all title = Some mcqs)))"
proof -
  have g: "generate_mcq loads (service (n + length pre)) larandemal indikatorer faktabas
             = Inr (PyList [], [StError (McqFailed e)])"
    using assms(5,7,8,9) by (rule generate_mcq_decode_failure)
  have "mcq_loop loads service st n (pre @ obj # post) d0 s0 =
          mcq_loop loads service st (n + length pre) (obj # post) d s"
    using assms(1) by (rule mcq_loop_append)
  also have "\<dots> = mcq_loop loads service st (n + length pre + 1) post
             (dict_store d larandemal (PyList [])) (s @ [StError (McqFailed e)])"
    using assms(2,3,4) g by (simp add: dict_setitem_hashable [OF assms(6)])
  finally have step: "mcq_loop loads service st n (pre @ obj # post) d0 s0 =
           mcq_loop loads service st (n + length pre + 1) post
             (dict_store d larandemal (PyList [])) (s @ [StError (McqFailed e)])" .
  have same: "dict_lookup (dict_store d larandemal (PyList [])) larandemal = Some (PyList [])"
    by (rule dict_lookup_store_same)
  have other: "\<forall>k. py_key k \<noteq> py_key larandemal
              \<longrightarrow> dict_lookup (dict_store d larandemal (PyList [])) k = dict_lookup d k"
    by (simp add: dict_lookup_store_other)
  have final: "mcq_loop loads service st n (pre @ obj # post) d0 s0 = (Inr mcqs_all, shown) \<longrightarrow>
            ((\<forall>later \<in> set post. \<forall>t. py_get later (PyStr (str ''larandemal'')) (PyStr []) = Inr t
                  \<longrightarrow> py_key t \<noteq> py_key larandemal)
               \<longrightarrow> dict_lookup mcqs_all larandemal = Some (PyList []))
          \<and> (\<forall>k. py_key k \<noteq> py_key larandemal
                 \<and> (\<forall>later \<in> set post. \<forall>t. py_get later (PyStr (str ''larandemal'')) (PyStr []) = Inr t
                        \<longrightarrow> py_key t \<noteq> py_key k)
               \<longrightarrow> dict_lookup mcqs_all k = dict_lookup d k)
          \<and> (\<forall>j title ind.
                 j < length post
                 \<and> py_get (post ! j) (PyStr (str ''larandemal'')) (PyStr []) = Inr title
                 \<and> py_get (post ! j) (PyStr (str ''indikatorer'')) (PyList []) = Inr ind
                 \<and> (\<forall>k. j < k \<and> k < length post
                        \<longrightarrow> (\<forall>t. py_get (post ! k) (PyStr (str ''larandemal'')) (PyStr []) = Inr t
                               \<longrightarrow> py_key t \<noteq> py_key title))
               \<longrightarrow> (\<exists>mcqs errors.
                      generate_mcq loads (service (n + length pre + 1 + j)) title ind faktabas
                        = Inr (mcqs, errors)
                      \<and> dict_lookup mcqs_all title = Some mcqs))"
  proof (intro impI conjI allI)
    assume run: "mcq_loop loads service st n (pre @ obj # post) d0 s0 = (Inr mcqs_all, shown)"
      and later: "\<forall>later \<in> set post. \<forall>t. py_get later (PyStr (str ''larandemal'')) (PyStr []) = Inr t
                  \<longrightarrow> py_key t \<noteq> py_key larandemal"
    from run step have r: "mcq_loop loads service st (n + length pre + 1) post
             (dict_store d larandemal (PyList [])) (s @ [StError (McqFailed e)]) = (Inr mcqs_all, shown)"
      by simp
    from mcq_loop_other_keys [OF r later] same
    show "dict_lookup mcqs_all larandemal = Some (PyList [])" by simp
  next
    fix k
    assume run: "mcq_loop loads service st n (pre @ obj # post) d0 s0 = (Inr mcqs_all, shown)"
      and k: "py_key k \<noteq> py_key larandemal
                 \<and> (\<forall>later \<in> set post. \<forall>t. py_get later (PyStr (str ''larandemal'')) (PyStr []) = Inr t
                        \<longrightarrow> py_key t \<noteq> py_key k)"
    from run step have r: "mcq_loop loads service st (n + length pre + 1) post
             (dict_store d larandemal (PyList [])) (s @ [StError (McqFailed e)]) = (Inr mcqs_all, shown)"
      by simp
    from k have later: "\<forall>later \<in> set post. \<forall>t. py_get later (PyStr (str ''larandemal'')) (PyStr []) = Inr t
                        \<longrightarrow> py_key t \<noteq> py_key k" by (rule conjunct2)
    from mcq_loop_other_keys [OF r later]
    have "dict_lookup mcqs_all k = dict_lookup (dict_store d larandemal (PyList [])) k" .
    with k show "dict_lookup mcqs_all k = dict_lookup d k"
      by (simp add: dict_lookup_store_other)
  next
    fix j title ind
    assume run: "mcq_loop loads service st n (pre @ obj # post) d0 s0 = (Inr mcqs_all, shown)"
      and j: "j < length post
                 \<and> py_get (post ! j) (PyStr (str ''larandemal'')) (PyStr []) = Inr title
                 \<and> py_get (post ! j) (PyStr (str ''indikatorer'')) (PyList []) = Inr ind
                 \<and> (\<forall>k. j < k \<and> k < length post
                        \<longrightarrow> (\<forall>t. py_get (post ! k) (PyStr (str ''larandemal'')) (PyStr []) = Inr t
                               \<longrightarrow> py_key t \<noteq> py_key title))"
    from run step have r: "mcq_loop loads service st (n + length pre + 1) post
             (dict_store d larandemal (PyList [])) (s @ [StError (McqFailed e)]) = (Inr mcqs_all, shown)"
      by simp
    from j have j1: "j < length post"
      and j2: "py_get (post ! j) (PyStr (str ''larandemal'')) (PyStr []) = Inr title"
      and j3: "py_get (post ! j) (PyStr (str ''indikatorer'')) (PyList []) = Inr ind"
      and j4: "\<forall>k. j < k \<and> k < length post
                        \<longrightarrow> (\<forall>t. py_get (post ! k) (PyStr (str ''larandemal'')) (PyStr []) = Inr t
                               \<longrightarrow> py_key t \<noteq> py_key title)"
      by simp_all
    from mcq_loop_last_title [OF r j1 j2 j3 assms(4) j4]
    show "\<exists>mcqs errors.
            generate_mcq loads (service (n + length pre + 1 + j)) title ind faktabas = Inr (mcqs, errors)
            \<and> dict_lookup mcqs_all title = Some mcqs" .
  qed
  from step same other final show ?thesis by (intro conjI)
qed

theorem decode_failure_isolated_witness:
  "mcq_loop json_loads
     (\<lambda>(n::nat) p. Inr (if n = 0 then str ''[1]'' else if n = 1 then str ''[2]''
                        else if n = 2 then str ''oops'' else str ''[3]''))
     [str ''faktabas'' \<mapsto> PyStr (str ''abc'')] 0
     ([PyDict [(PyStr (str ''larandemal''), PyStr (str ''T''))],
       PyDict [(PyStr (str ''larandemal''), PyStr (str ''U''))]]
      @ PyDict [(PyStr (str ''larandemal''), PyStr (str ''T''))]
      # [PyDict [(PyStr (str ''larandemal''), PyStr (str ''V''))]]) [] []
     = (Inr [(PyStr (str ''T''), PyList []), (PyStr (str ''U''), PyList [PyInt 2]),
             (PyStr (str ''V''), PyList [PyInt 3])],
        [StError (McqFailed JSONDecodeError)])
   \<and> dict_lookup [(PyStr (str ''T''), PyList []), (PyStr (str ''U''), PyList [PyInt 2]),
                  (PyStr (str ''V''), PyList [PyInt 3])] (PyStr (str ''T'')) = Some (PyList [])
   \<and> dict_lookup [(PyStr (str ''T''), PyList []), (PyStr (str ''U''), PyList [PyInt 2]),
                  (PyStr (str ''V''), PyList [PyInt 3])] (PyStr (str ''U'')) = Some (PyList [PyInt 2])
   \<and> dict_lookup [(PyStr (str ''T''), PyList []), (PyStr (str ''U''), PyList [PyInt 2]),
                  (PyStr (str ''V''), PyList [PyInt 3])] (PyStr (str ''V'')) = Some (PyList [PyInt 3])"
proof -
  let ?service = "\<lambda>(n::nat) (p::prompt). (Inr (if n = 0 then str ''[1]'' else if n = 1 then str ''[2]''
                    else if n = 2 then str ''oops'' else str ''[3]'') :: exn + ustr)"
  let ?st = "[str ''faktabas'' \<mapsto> PyStr (str ''abc'')]"
  let ?T = "PyDict [(PyStr (str ''larandemal''), PyStr (str ''T''))]"
  let ?U = "PyDict [(PyStr (str ''larandemal''), PyStr (str ''U''))]"
  let ?V = "PyDict [(PyStr (str ''larandemal''), PyStr (str ''V''))]"
  let ?d = "[(PyStr (str ''T''), PyList [PyInt 1]), (PyStr (str ''U''), PyList [PyInt 2])]"
  let ?final = "[(PyStr (str ''T''), PyList []), (PyStr (str ''U''), PyList [PyInt 2]),
                 (PyStr (str ''V''), PyList [PyInt 3])]"
  have ne: "str ''T'' \<noteq> str ''U''" "str ''T'' \<noteq> str ''V''" "str ''U'' \<noteq> str ''V''"
    "str ''U'' \<noteq> str ''T''" "str ''V'' \<noteq> str ''T''" "str ''V'' \<noteq> str ''U''"
    by (simp_all add: str_def)
  have pre: "mcq_loop json_loads ?service ?st 0 [?T, ?U] [] [] = (Inr ?d, [])"
    using ne by (simp add: title_examples generate_mcq_examples dict_setitem_def)
  have post: "mcq_loop json_loads ?service ?st (0 + length [?T, ?U] + 1) [?V]
                (dict_store ?d (PyStr (str ''T'')) (PyList []))
                ([] @ [StError (McqFailed JSONDecodeError)])
               = (Inr ?final, [StError (McqFailed JSONDecodeError)])"
    using ne by (simp add: title_examples generate_mcq_examples dict_setitem_def)
  have join: "py_join [0x0A] (PyList []) = Inr []"
    by (simp add: py_join_def py_iter_def)
  have key: "py_key (PyStr (str ''T'')) \<noteq> None" by simp
  have reply: "?service (0 + length [?T, ?U]) (McqPrompt (PyStr (str ''T'')) [] (PyStr (str ''abc'')))
                 = Inr (str ''oops'')"
    by simp
  have fb: "?st (str ''faktabas'') = Some (PyStr (str ''abc''))" by simp
  note inst = decode_failure_isolated [where post = "[?V]" and mcqs_all = ?final
      and shown = "[StError (McqFailed JSONDecodeError)]",
      OF pre title_examples(1) title_examples(2) fb join key reply
      strip_fences_plain(4) json_loads_examples(4)]
  have run: "mcq_loop json_loads ?service ?st 0 ([?T, ?U] @ ?T # [?V]) [] []
      = (Inr ?final, [StError (McqFailed JSONDecodeError)])"
    using inst [THEN conjunct1] post by (rule trans)
  note final = inst [THEN conjunct2, THEN conjunct2, THEN conjunct2, THEN mp, OF run]
  have later_T: "\<forall>later \<in> set [?V]. \<forall>t. py_get later (PyStr (str ''larandemal'')) (PyStr []) = Inr t
                  \<longrightarrow> py_key t \<noteq> py_key (PyStr (str ''T''))"
    using ne by (simp add: title_examples)
  have later_U: "py_key (PyStr (str ''U'')) \<noteq> py_key (PyStr (str ''T''))
      \<and> (\<forall>later \<in> set [?V]. \<forall>t. py_get later (PyStr (str ''larandemal'')) (PyStr []) = Inr t
                  \<longrightarrow> py_key t \<noteq> py_key (PyStr (str ''U'')))"
    using ne by (simp add: title_examples)
  have last_V: "0 < length [?V]
      \<and> py_get ([?V] ! 0) (PyStr (str ''larandemal'')) (PyStr []) = Inr (PyStr (str ''V''))
      \<and> py_get ([?V] ! 0) (PyStr (str ''indikatorer'')) (PyList []) = Inr (PyList [])
      \<and> (\<forall>k. 0 < k \<and> k < length [?V]
            \<longrightarrow> (\<forall>t. py_get ([?V] ! k) (PyStr (str ''larandemal'')) (PyStr []) = Inr t
                   \<longrightarrow> py_key t \<noteq> py_key (PyStr (str ''V''))))"
    by (auto simp: title_examples)
  have t: "dict_lookup ?final (PyStr (str ''T'')) = Some (PyList [])"
    using final [THEN conjunct1, THEN mp, OF later_T] .
  have "dict_lookup ?final (PyStr (str ''U'')) = dict_lookup ?d (PyStr (str ''U''))"
    using final [THEN conjunct2, THEN conjunct1, THEN spec, THEN mp, OF later_U] .
  then have u: "dict_lookup ?final (PyStr (str ''U'')) = Some (PyList [PyInt 2])"
    using ne by simp
  from final [THEN conjunct2, THEN conjunct2, THEN spec, THEN spec, THEN spec, THEN mp, OF last_V]
  obtain mcqs errors where
    g: "generate_mcq json_loads (?service (0 + length [?T, ?U] + 1 + 0)) (PyStr (str ''V''))
          (PyList []) (PyStr (str ''abc'')) = Inr (mcqs, errors)"
    and l: "dict_lookup ?final (PyStr (str ''V'')) = Some mcqs"
    by blast
  from g have "mcqs = PyList [PyInt 3]" by (simp add: generate_mcq_examples)
  with l have v: "dict_lookup ?final (PyStr (str ''V'')) = Some (PyList [PyInt 3])" by simp
  from run t u v show ?thesis by (intro conjI)
qed

text \<open>
  The entries belong to titles, not to objectives. Of two objectives with the same
  title whose first reply decodes to \<open>[1]\<close> and whose second reply does not decode,
  the dictionary keeps the empty list only: the failure of the second objective has
  removed the questions of the first.
\<close>

theorem decode_failure_counterexample:
  "main_questions json_loads
     (\<lambda>(n::nat) p. Inr (if n = 0 then str ''[1]'' else str ''oops''))
     [str ''faktabas'' \<mapsto> PyStr (str ''abc''),
      str ''larandemal_och_indikatorer'' \<mapsto>
        PyList [PyDict [(PyStr (str ''larandemal''), PyStr (str ''T''))],
                PyDict [(PyStr (str ''larandemal''), PyStr (str ''T''))]]]
     = (Inr [str ''faktabas'' \<mapsto> PyStr (str ''abc''),
             str ''larandemal_och_indikatorer'' \<mapsto>
               PyList [PyDict [(PyStr (str ''larandemal''), PyStr (str ''T''))],
                       PyDict [(PyStr (str ''larandemal''), PyStr (str ''T''))]],
             str ''mcqs'' \<mapsto> PyDict [(PyStr (str ''T''), PyList [])]],
        [StError (McqFailed JSONDecodeError)])
   \<and> generate_mcq json_loads (\<lambda>p. Inr (str ''[1]'')) (PyStr (str ''T'')) (PyList [])
        (PyStr (str ''abc'')) = Inr (PyList [PyInt 1], [])
   \<and> generate_mcq json_loads (\<lambda>p. Inr (str ''oops'')) (PyStr (str ''T'')) (PyList [])
        (PyStr (str ''abc'')) = Inr (PyList [], [StError (McqFailed JSONDecodeError)])"
proof -
  let ?service = "\<lambda>(n::nat) (p::prompt). (Inr (if n = 0 then str ''[1]'' else str ''oops'')
                    :: exn + ustr)"
  let ?objs = "[PyDict [(PyStr (str ''larandemal''), PyStr (str ''T''))],
      PyDict [(PyStr (str ''larandemal''), PyStr (str ''T''))]]"
  let ?st = "[str ''faktabas'' \<mapsto> PyStr (str ''abc''),
              str ''larandemal_och_indikatorer'' \<mapsto> PyList ?objs]"
  let ?d = "[(PyStr (str ''T''), PyList [])]"
  have keys: "str ''larandemal_och_indikatorer'' \<noteq> str ''faktabas''"
    by (simp add: str_def)
  have fb: "?st (str ''faktabas'') = Some (PyStr (str ''abc''))"
    using keys by simp
  have objectives: "?st (str ''larandemal_och_indikatorer'') = Some (PyList ?objs)"
    by simp
  have iter: "py_iter (PyList ?objs) = Inr ?objs"
    by (simp add: py_iter_def)
  have loop: "mcq_loop json_loads ?service ?st 0 ?objs [] []
                = (Inr ?d, [StError (McqFailed JSONDecodeError)])"
    using fb by (simp add: title_examples generate_mcq_examples dict_setitem_def)
  have run: "main_questions json_loads ?service ?st
               = (Inr (?st(str ''mcqs'' \<mapsto> PyDict ?d)), [StError (McqFailed JSONDecodeError)])"
    by (simp only: main_questions_def objectives option.case iter sum.case loop prod.case)
  from run show ?thesis by (simp add: generate_mcq_examples)
qed

text \<open>
  C9. When the questions are generated without an exception, the dictionary stored
  under \<open>mcqs\<close> has exactly one entry for each distinct title, and the entry of a
  title holds the questions generated for the last objective with that title (the call
  number \<open>j\<close> of the service): an earlier objective with the same title is
  overwritten, and nothing is shown about it.
\<close>

theorem later_title_overwrites:
  assumes "main_questions loads service st = (Inr st', shown)"
    and "st (str ''larandemal_och_indikatorer'') = Some objectives"
    and "py_iter objectives = Inr objs"
    and "j < length objs"
    and "py_get (objs ! j) (PyStr (str ''larandemal'')) (PyStr []) = Inr title"
    and "py_get (objs ! j) (PyStr (str ''indikatorer'')) (PyList []) = Inr indikatorer"
    and "st (str ''faktabas'') = Some faktabas"
    and "\<forall>k. j < k \<and> k < length objs
            \<longrightarrow> (\<forall>t. py_get (objs ! k) (PyStr (str ''larandemal'')) (PyStr []) = Inr t
                   \<longrightarrow> py_key t \<noteq> py_key title)"
  shows "\<exists>mcqs_all mcqs errors.
           st' = st(str ''mcqs'' \<mapsto> PyDict mcqs_all)
           \<and> generate_mcq loads (service j) title indikatorer faktabas = Inr (mcqs, errors)
           \<and> dict_lookup mcqs_all title = Some mcqs
           \<and> distinct (map (py_key \<circ> fst) mcqs_all)
           \<and> set (map (py_key \<circ> fst) mcqs_all) =
               {py_key t | t. \<exists>obj \<in> set objs.
                  py_get obj (PyStr (str ''larandemal'')) (PyStr []) = Inr t}"
proof -
  from assms(1) obtain objectives' objs' mcqs_all where
    o: "st (str ''larandemal_och_indikatorer'') = Some objectives'"
      "py_iter objectives' = Inr objs'"
    and run: "mcq_loop loads service st 0 objs' [] [] = (Inr mcqs_all, shown)"
    and st': "st' = st(str ''mcqs'' \<mapsto> PyDict mcqs_all)"
    by (rule main_questions_Inr)
  from o assms(2,3) have "objs' = objs" by simp
  with run have run: "mcq_loop loads service st 0 objs [] [] = (Inr mcqs_all, shown)" by simp
  from mcq_loop_last_title [OF run assms(4,5,6,7,8)] obtain mcqs errors where
    g: "generate_mcq loads (service j) title indikatorer faktabas = Inr (mcqs, errors)"
    and l: "dict_lookup mcqs_all title = Some mcqs"
    by auto
  from mcq_loop_keys [OF run] have d: "distinct (map (py_key \<circ> fst) mcqs_all)"
    and k: "set (map (py_key \<circ> fst) mcqs_all) =
               {py_key t | t. \<exists>obj \<in> set objs.
                  py_get obj (PyStr (str ''larandemal'')) (PyStr []) = Inr t}"
    by simp_all
  from st' g l d k show ?thesis by blast
qed

theorem later_title_overwrites_witness:
  "main_questions json_loads
     (\<lambda>(n::nat) p. Inr (if n = 0 then str ''[1]'' else if n = 1 then str ''[2]'' else str ''[3]''))
     [str ''faktabas'' \<mapsto> PyStr (str ''abc''),
      str ''larandemal_och_indikatorer'' \<mapsto>
        PyList [PyDict [(PyStr (str ''larandemal''), PyStr (str ''T''))],
                PyDict [(PyStr (str ''larandemal''), PyStr (str ''T''))],
                PyDict [(PyStr (str ''larandemal''), PyStr (str ''U''))]]]
     = (Inr [str ''faktabas'' \<mapsto> PyStr (str ''abc''),
             str ''larandemal_och_indikatorer'' \<mapsto>
               PyList [PyDict [(PyStr (str ''larandemal''), PyStr (str ''T''))],
                       PyDict [(PyStr (str ''larandemal''), PyStr (str ''T''))],
                       PyDict [(PyStr (str ''larandemal''), PyStr (str ''U''))]],
             str ''mcqs'' \<mapsto>
               PyDict [(PyStr (str ''T''), PyList [PyInt 2]),
                       (PyStr (str ''U''), PyList [PyInt 3])]], [])
   \<and> generate_mcq json_loads (\<lambda>p. Inr (str ''[2]'')) (PyStr (str ''T'')) (PyList [])
        (PyStr (str ''abc'')) = Inr (PyList [PyInt 2], [])
   \<and> dict_lookup [(PyStr (str ''T''), PyList [PyInt 2]), (PyStr (str ''U''), PyList [PyInt 3])]
        (PyStr (str ''T'')) = Some (PyList [PyInt 2])
   \<and> distinct (map (py_key \<circ> fst)
        [(PyStr (str ''T''), PyList [PyInt 2]), (PyStr (str ''U''), PyList [PyInt 3])])"
proof -
  let ?service = "\<lambda>(n::nat) (p::prompt). (Inr (if n = 0 then str ''[1]'' else if n = 1 then str ''[2]''
                    else str ''[3]'') :: exn + ustr)"
  let ?objs = "[PyDict [(PyStr (str ''larandemal''), PyStr (str ''T''))],
      PyDict [(PyStr (str ''larandemal''), PyStr (str ''T''))],
      PyDict [(PyStr (str ''larandemal''), PyStr (str ''U''))]]"
  let ?st = "[str ''faktabas'' \<mapsto> PyStr (str ''abc''),
              str ''larandemal_och_indikatorer'' \<mapsto> PyList ?objs]"
  let ?d = "[(PyStr (str ''T''), PyList [PyInt 2]), (PyStr (str ''U''), PyList [PyInt 3])]"
  have tu: "str ''T'' \<noteq> str ''U''" by (simp add: str_def)
  have keys: "str ''larandemal_och_indikatorer'' \<noteq> str ''faktabas''"
    by (simp add: str_def)
  have fb: "?st (str ''faktabas'') = Some (PyStr (str ''abc''))"
    using keys by simp
  have objectives: "?st (str ''larandemal_och_indikatorer'') = Some (PyList ?objs)"
    by simp
  have iter: "py_iter (PyList ?objs) = Inr ?objs"
    by (simp add: py_iter_def)
  have loop: "mcq_loop json_loads ?service ?st 0 ?objs [] [] = (Inr ?d, [])"
    using tu fb by (simp add: title_examples generate_mcq_examples dict_setitem_def)
  have run: "main_questions json_loads ?service ?st = (Inr (?st(str ''mcqs'' \<mapsto> PyDict ?d)), [])"
    by (simp only: main_questions_def objectives option.case iter sum.case loop prod.case)
  have later: "\<forall>k. 1 < k \<and> k < length ?objs
            \<longrightarrow> (\<forall>t. py_get (?objs ! k) (PyStr (str ''larandemal'')) (PyStr []) = Inr t
                   \<longrightarrow> py_key t \<noteq> py_key (PyStr (str ''T'')))"
  proof (intro allI impI)
    fix k t
    assume k: "1 < k \<and> k < length ?objs"
      and t: "py_get (?objs ! k) (PyStr (str ''larandemal'')) (PyStr []) = Inr t"
    from k have "k = 2" by simp
    with t tu show "py_key t \<noteq> py_key (PyStr (str ''T''))"
      by (auto simp: title_examples)
  qed
  have j: "(1::nat) < length ?objs" by simp
  have t1: "py_get (?objs ! 1) (PyStr (str ''larandemal'')) (PyStr []) = Inr (PyStr (str ''T''))"
    and i1: "py_get (?objs ! 1) (PyStr (str ''indikatorer'')) (PyList []) = Inr (PyList [])"
    by (simp_all add: title_examples)
  from later_title_overwrites [OF run objectives iter j t1 i1 fb later]
  obtain mcqs_all mcqs errors where
    m: "?st(str ''mcqs'' \<mapsto> PyDict ?d) = ?st(str ''mcqs'' \<mapsto> PyDict mcqs_all)"
    and g: "generate_mcq json_loads (?service 1) (PyStr (str ''T'')) (PyList [])
              (PyStr (str ''abc'')) = Inr (mcqs, errors)"
    and l: "dict_lookup mcqs_all (PyStr (str ''T'')) = Some mcqs"
    and d: "distinct (map (py_key \<circ> fst) mcqs_all)"
    by blast
  from m have "mcqs_all = ?d"
    by (metis fun_upd_same option.inject pyval.inject(6))
  with g l d run show ?thesis
    by (simp add: generate_mcq_examples)
qed




end
